theory Spec2Isabelle
  imports Complex_Main
begin

section \<open>Python strings and values\<close>

text \<open>
  Strings are sequences of ASCII characters. \<open>py_isspace\<close> is the set of ASCII characters
  that \<open>str.strip\<close> and \<open>str.rstrip\<close> remove when called without an argument: tab, line
  feed, vertical tab, form feed, carriage return, the four separators 0x1C-0x1F and space.
\<close>

definition py_isspace :: "char \<Rightarrow> bool" where
  "py_isspace c = (let n = (of_char c :: nat) in (9 \<le> n \<and> n \<le> 13) \<or> (28 \<le> n \<and> n \<le> 32))"

definition rstrip :: "string \<Rightarrow> string" where
  "rstrip s = rev (dropWhile py_isspace (rev s))"

definition strip :: "string \<Rightarrow> string" where
  "strip s = dropWhile py_isspace (rstrip s)"

definition upper_char :: "char \<Rightarrow> char" where
  "upper_char c = (let n = (of_char c :: nat) in if 97 \<le> n \<and> n \<le> 122 then char_of (n - 32) else c)"

definition upper :: "string \<Rightarrow> string" where
  "upper s = map upper_char s"

fun join :: "string \<Rightarrow> string list \<Rightarrow> string" where
  "join sep [] = []"
| "join sep [x] = x"
| "join sep (x # y # ys) = x @ sep @ join sep (y # ys)"

definition newline :: string where
  "newline = [CHR 0x0A]"

text \<open>
  Python slicing \<open>xs[start:stop]\<close> with step 1: a negative index counts from the end, and
  both indices are clamped to the range of the list.
\<close>

definition slice_index :: "nat \<Rightarrow> int \<Rightarrow> nat" where
  "slice_index n i = (if i < 0 then nat (max 0 (int n + i)) else min n (nat i))"

definition py_slice :: "'a list \<Rightarrow> int \<Rightarrow> int \<Rightarrow> 'a list" where
  "py_slice xs start stop =
     (let lo = slice_index (length xs) start; hi = slice_index (length xs) stop
      in take (hi - lo) (drop lo xs))"

text \<open>
  The values a tool call's argument payload is made of: what \<open>json.loads\<close> produces, and
  what a provider hands over as a structured mapping. A dictionary is an association list
  read with \<open>map_of\<close>.
\<close>

datatype pyval =
    PNone
  | PBool bool
  | PInt int
  | PFloat real
  | PStr string
  | PList "pyval list"
  | PDict "(string \<times> pyval) list"

text \<open>Truth value testing, as \<open>if v:\<close> does it.\<close>

fun truthy :: "pyval \<Rightarrow> bool" where
  "truthy PNone = False"
| "truthy (PBool b) = b"
| "truthy (PInt i) = (i \<noteq> 0)"
| "truthy (PFloat r) = (r \<noteq> 0)"
| "truthy (PStr s) = (s \<noteq> [])"
| "truthy (PList vs) = (vs \<noteq> [])"
| "truthy (PDict kvs) = (kvs \<noteq> [])"

text \<open>\<open>d.get(k)\<close>: the value stored under the key, \<open>None\<close> when the key is absent.\<close>

definition dict_get :: "(string \<times> pyval) list \<Rightarrow> string \<Rightarrow> pyval" where
  "dict_get d k = (case map_of d k of None \<Rightarrow> PNone | Some v \<Rightarrow> v)"

text \<open>
  \<open>for fact in facts\<close>: a list yields its elements, a string its characters, a dictionary
  its keys; the other values are not iterable and the loop raises \<open>TypeError\<close> (\<open>None\<close>).
\<close>

fun py_iter :: "pyval \<Rightarrow> pyval list option" where
  "py_iter (PList vs) = Some vs"
| "py_iter (PStr s) = Some (map (\<lambda>c. PStr [c]) s)"
| "py_iter (PDict kvs) = Some (map (\<lambda>kv. PStr (fst kv)) kvs)"
| "py_iter PNone = None"
| "py_iter (PBool b) = None"
| "py_iter (PInt i) = None"
| "py_iter (PFloat r) = None"

section \<open>The memory files (memory.py)\<close>

text \<open>
  \<open>MemoryStore\<close> owns two files, \<open>MEMORY.md\<close> (the profile) and \<open>HISTORY.md\<close> (the log).
  A file that does not exist is \<open>None\<close>. \<open>fs_log\<close> records every write the store performs,
  in order, so that a write of unchanged content and no write at all are told apart.
  Reading and writing the two files is taken to succeed.
\<close>

datatype fs_event = WriteMemory string | AppendHistory string

record memory_store =
  memory_file :: "string option"
  history_file :: "string option"
  fs_log :: "fs_event list"

definition read_long_term :: "memory_store \<Rightarrow> string" where
  "read_long_term ms = (case memory_file ms of Some c \<Rightarrow> c | None \<Rightarrow> [])"

definition write_long_term :: "memory_store \<Rightarrow> string \<Rightarrow> memory_store" where
  "write_long_term ms c =
     ms\<lparr>memory_file := Some c, fs_log := fs_log ms @ [WriteMemory c]\<rparr>"

definition append_history :: "memory_store \<Rightarrow> string \<Rightarrow> memory_store" where
  "append_history ms entry =
     (let written = rstrip entry @ newline @ newline
      in ms\<lparr>history_file := Some ((case history_file ms of Some h \<Rightarrow> h | None \<Rightarrow> []) @ written),
            fs_log := fs_log ms @ [AppendHistory written]\<rparr>)"

definition get_memory_context :: "memory_store \<Rightarrow> string" where
  "get_memory_context ms =
     (let long_term = read_long_term ms
      in if long_term \<noteq> [] then ''## Core Profile'' @ newline @ long_term else [])"

section \<open>The storage engine (utils/db.py)\<close>

text \<open>
  The PostgreSQL engine behind the connection pool is outside the repository. The model
  keeps the three tables of \<open>_init_tables\<close> as lists of rows in insertion order, the two
  \<open>SERIAL\<close> counters, and \<open>faults\<close>: what the engine will answer to the coming round trips
  (acquiring a connection, a statement, the begin and the commit of a transaction), \<open>True\<close>
  when the round trip raises, for whatever reason (a lost connection, a violated constraint,
  a value the driver cannot encode). Past the end of \<open>faults\<close> no round trip raises.
\<close>

type_synonym embedding = "real list"

record user_identity =
  ui_user_id :: int
  ui_channel :: string
  ui_sender_id :: string

record vector_memory =
  vm_id :: int
  vm_user_id :: int
  vm_content :: string
  vm_embedding :: embedding

record pg_pool =
  users :: "int list"
  users_id_seq :: int
  user_identities :: "user_identity list"
  vector_memories :: "vector_memory list"
  vector_memories_id_seq :: int
  faults :: "bool list"

record database_manager =
  enabled :: bool
  pool :: "pg_pool option"

definition round_trip :: "pg_pool \<Rightarrow> bool \<times> pg_pool" where
  "round_trip p = (case faults p of [] \<Rightarrow> (False, p) | f # fs \<Rightarrow> (f, p\<lparr>faults := fs\<rparr>))"

text \<open>
  The same round trip read off the schedule: \<open>raises p\<close> says whether the next round trip
  raises, \<open>after_trip p\<close> is the pool after it, and \<open>raises_within k p\<close> says whether one
  of the next \<open>k\<close> round trips raises.
\<close>

definition raises :: "pg_pool \<Rightarrow> bool" where
  "raises p = (case faults p of [] \<Rightarrow> False | f # fs \<Rightarrow> f)"

definition after_trip :: "pg_pool \<Rightarrow> pg_pool" where
  "after_trip p = p\<lparr>faults := tl (faults p)\<rparr>"

definition raises_within :: "nat \<Rightarrow> pg_pool \<Rightarrow> bool" where
  "raises_within k p = (True \<in> set (take k (faults p)))"

text \<open>
  \<open>get_user_id\<close>: the lookup, then the two inserts inside one transaction. A raise inside
  the transaction rolls the rows back (a sequence keeps the value it handed out); every
  raise is caught and the result is \<open>None\<close>.
\<close>

definition get_user_id ::
  "database_manager \<Rightarrow> string \<Rightarrow> string \<Rightarrow> int option \<times> database_manager" where
  "get_user_id db channel sender_id =
     (case pool db of
        None \<Rightarrow> (None, db)
      | Some p0 \<Rightarrow>
          if \<not> enabled db then (None, db)
          else
            let (e1, p1) = round_trip p0 in
            if e1 then (None, db\<lparr>pool := Some p1\<rparr>)
            else
              let (e2, p2) = round_trip p1 in
              if e2 then (None, db\<lparr>pool := Some p2\<rparr>)
              else
                (case find (\<lambda>r. ui_channel r = channel \<and> ui_sender_id r = sender_id)
                        (user_identities p2) of
                   Some row \<Rightarrow> (Some (ui_user_id row), db\<lparr>pool := Some p2\<rparr>)
                 | None \<Rightarrow>
                     let (e3, p3) = round_trip p2 in
                     if e3 then (None, db\<lparr>pool := Some p3\<rparr>)
                     else
                       let (e4, p4) = round_trip p3 in
                       if e4 then (None, db\<lparr>pool := Some p4\<rparr>)
                       else
                         let user_id = users_id_seq p4;
                             p5 = p4\<lparr>users := users p4 @ [user_id], users_id_seq := user_id + 1\<rparr>;
                             (e5, p6) = round_trip p5
                         in
                         if e5 then (None, db\<lparr>pool := Some (p6\<lparr>users := users p4\<rparr>)\<rparr>)
                         else
                           let p7 = p6\<lparr>user_identities := user_identities p6 @
                                        [\<lparr>ui_user_id = user_id, ui_channel = channel,
                                          ui_sender_id = sender_id\<rparr>]\<rparr>;
                               (e6, p8) = round_trip p7
                           in
                           if e6
                           then (None, db\<lparr>pool := Some (p8\<lparr>users := users p4,
                                                user_identities := user_identities p4\<rparr>)\<rparr>)
                           else (Some user_id, db\<lparr>pool := Some p8\<rparr>)))"

section \<open>The vector memory store (agent/vector_memory.py)\<close>

text \<open>
  The DashScope client is outside the repository: \<open>text_embedding_call model input\<close> is
  what \<open>dashscope.TextEmbedding.call\<close> does, either raising or returning a response with
  its status code and the embeddings of its output (a response whose output lacks the
  fields read makes the source raise inside the same \<open>try\<close>, as \<open>DsRaises\<close> does).
\<close>

datatype ds_result = DsRaises | DsResponse int "embedding list"

record vector_memory_store =
  vs_db :: "database_manager option"
  api_key :: string
  vs_model :: string

definition get_embeddings ::
  "(string \<Rightarrow> string \<Rightarrow> ds_result) \<Rightarrow> vector_memory_store \<Rightarrow> string \<Rightarrow> embedding option" where
  "get_embeddings text_embedding_call vs text =
     (if api_key vs = [] then None
      else
        (case text_embedding_call (vs_model vs) text of
           DsRaises \<Rightarrow> None
         | DsResponse status_code embs \<Rightarrow>
             if status_code = 200
             then (case embs of [] \<Rightarrow> None | e # es \<Rightarrow> Some e)
             else None))"

text \<open>\<open>not self.db or not self.db.enabled or not self.db.pool\<close>, with the pool when it is there.\<close>

definition available_pool :: "vector_memory_store \<Rightarrow> pg_pool option" where
  "available_pool vs =
     (case vs_db vs of
        None \<Rightarrow> None
      | Some db \<Rightarrow> if \<not> enabled db then None else pool db)"

definition set_pool :: "vector_memory_store \<Rightarrow> pg_pool \<Rightarrow> vector_memory_store" where
  "set_pool vs p = vs\<lparr>vs_db := map_option (\<lambda>db. db\<lparr>pool := Some p\<rparr>) (vs_db vs)\<rparr>"

definition add_memory ::
  "(string \<Rightarrow> string \<Rightarrow> ds_result) \<Rightarrow> vector_memory_store \<Rightarrow> int \<Rightarrow> string \<Rightarrow> vector_memory_store" where
  "add_memory text_embedding_call vs user_id content =
     (case available_pool vs of
        None \<Rightarrow> vs
      | Some p0 \<Rightarrow>
          (case get_embeddings text_embedding_call vs content of
             None \<Rightarrow> vs
           | Some embedding \<Rightarrow>
               if embedding = [] then vs
               else
                 let (e1, p1) = round_trip p0 in
                 if e1 then set_pool vs p1
                 else
                   let (e2, p2) = round_trip p1 in
                   if e2 then set_pool vs p2
                   else
                     set_pool vs
                       (p2\<lparr>vector_memories := vector_memories p2 @
                              [\<lparr>vm_id = vector_memories_id_seq p2, vm_user_id = user_id,
                                vm_content = content, vm_embedding = embedding\<rparr>],
                           vector_memories_id_seq := vector_memories_id_seq p2 + 1\<rparr>)))"

text \<open>
  The similarity query: the rows of the user, ordered by the distance of their embedding
  to the query's (the engine's operator \<open><=>\<close>, here any function \<open>distance\<close> into a linear
  order), cut to \<open>limit\<close> rows. A negative \<open>limit\<close>, which the engine refuses, gives no
  row here, and the empty list in the source as well, where the raise is caught.
\<close>

definition similarity_query ::
  "(embedding \<Rightarrow> embedding \<Rightarrow> 'd::linorder) \<Rightarrow> pg_pool \<Rightarrow> int \<Rightarrow> embedding \<Rightarrow> int \<Rightarrow> vector_memory list" where
  "similarity_query distance p user_id embedding limit =
     take (nat limit)
       (sort_key (\<lambda>r. distance (vm_embedding r) embedding)
          (filter (\<lambda>r. vm_user_id r = user_id) (vector_memories p)))"

definition search_memories ::
  "(embedding \<Rightarrow> embedding \<Rightarrow> 'd::linorder) \<Rightarrow> (string \<Rightarrow> string \<Rightarrow> ds_result) \<Rightarrow>
   vector_memory_store \<Rightarrow> int \<Rightarrow> string \<Rightarrow> int \<Rightarrow> string list \<times> vector_memory_store" where
  "search_memories distance text_embedding_call vs user_id query limit =
     (case available_pool vs of
        None \<Rightarrow> ([], vs)
      | Some p0 \<Rightarrow>
          (case get_embeddings text_embedding_call vs query of
             None \<Rightarrow> ([], vs)
           | Some embedding \<Rightarrow>
               if embedding = [] then ([], vs)
               else
                 let (e1, p1) = round_trip p0 in
                 if e1 then ([], set_pool vs p1)
                 else
                   let (e2, p2) = round_trip p1 in
                   if e2 then ([], set_pool vs p2)
                   else (map vm_content (similarity_query distance p2 user_id embedding limit),
                         set_pool vs p2)))"

section \<open>Consolidation (agent/memory.py)\<close>

text \<open>
  A session is the list of its messages and the cursor \<open>last_consolidated\<close>. A message has
  a role, and may have a content, a timestamp and the list of the tools used, with the
  types the session gives them (strings, and a list of strings); on such messages the
  formatting of the transcript, which the source runs before its \<open>try\<close>, does not raise.
  \<open>upper\<close> is \<open>str.upper\<close> on ASCII letters.
\<close>

record message =
  role :: string
  content :: "string option"
  timestamp :: "string option"
  tools_used :: "string list option"

record session =
  messages :: "message list"
  last_consolidated :: int

text \<open>
  The provider is outside the repository: \<open>provider msgs model\<close> is what
  \<open>provider.chat(messages, tools=_SAVE_MEMORY_TOOL, model)\<close> does, raising or returning a
  response. \<open>json_loads\<close> (\<open>None\<close> when it raises) and \<open>json_dumps\<close> are the two functions
  of Python's \<open>json\<close> module.
\<close>

record tool_call =
  arguments :: pyval

record llm_response =
  has_tool_calls :: bool
  tool_calls :: "tool_call list"

datatype chat_result = ChatRaises | ChatResponse llm_response

text \<open>Lines 91 to 104: the messages to consolidate and \<open>keep_count\<close>, or the early return.\<close>

definition select_old_messages :: "session \<Rightarrow> bool \<Rightarrow> int \<Rightarrow> (message list \<times> int) option" where
  "select_old_messages session archive_all memory_window =
     (if archive_all then Some (messages session, 0)
      else
        let keep_count = memory_window div 2 in
        if int (length (messages session)) \<le> keep_count then None
        else if int (length (messages session)) - last_consolidated session \<le> 0 then None
        else
          let old_messages = py_slice (messages session) (last_consolidated session) (- keep_count)
          in if old_messages = [] then None else Some (old_messages, keep_count))"

definition format_line :: "message \<Rightarrow> string \<Rightarrow> string" where
  "format_line m c =
     (let tools = (case tools_used m of
                     None \<Rightarrow> []
                   | Some ts \<Rightarrow> if ts = [] then [] else '' [tools: '' @ join '', '' ts @ '']'')
      in ''['' @ take 16 (case timestamp m of None \<Rightarrow> ''?'' | Some t \<Rightarrow> t) @ ''] '' @
         upper (role m) @ tools @ '': '' @ c)"

fun format_lines :: "message list \<Rightarrow> string list" where
  "format_lines [] = []"
| "format_lines (m # ms) =
     (case content m of
        None \<Rightarrow> format_lines ms
      | Some c \<Rightarrow> if c = [] then format_lines ms else format_line m c # format_lines ms)"

definition build_prompt :: "string \<Rightarrow> string list \<Rightarrow> string" where
  "build_prompt current_memory lines =
     ''Process this conversation and call the save_memory tool with your consolidation.'' @
     newline @ newline @
     ''Extract:'' @ newline @
     ''1. A brief summary for the history log.'' @ newline @
     ''2. Updates to the core user profile (MEMORY.md). Keep this section small and focused on critical facts.'' @
     newline @
     ''3. A list of NEW atomic, self-contained facts or user preferences to store in a vector database for later retrieval.'' @
     newline @ newline @
     ''## Current Core Profile (MEMORY.md)'' @ newline @
     (if current_memory = [] then ''(empty)'' else current_memory) @
     newline @ newline @
     ''## Conversation to Process'' @ newline @
     join newline lines"

definition system_prompt :: string where
  "system_prompt =
     ''You are a memory consolidation agent. Call the save_memory tool with your consolidation of the conversation.''"

text \<open>
  Lines 141 to 147: a string payload is parsed, and anything but a mapping is refused.
  \<open>None\<close> stands for both ways to fail, the raise of \<open>json.loads\<close> and the early return.
\<close>

definition parse_arguments :: "(string \<Rightarrow> pyval option) \<Rightarrow> pyval \<Rightarrow> (string \<times> pyval) list option" where
  "parse_arguments json_loads args =
     (case (case args of PStr s \<Rightarrow> json_loads s | _ \<Rightarrow> Some args) of
        None \<Rightarrow> None
      | Some (PDict d) \<Rightarrow> Some d
      | Some _ \<Rightarrow> None)"

text \<open>\<open>if not isinstance(v, str): v = json.dumps(v, ensure_ascii=False)\<close>\<close>

definition coerce_str :: "(pyval \<Rightarrow> string) \<Rightarrow> pyval \<Rightarrow> string" where
  "coerce_str json_dumps v = (case v of PStr s \<Rightarrow> s | _ \<Rightarrow> json_dumps v)"

text \<open>The loop of lines 161 to 163.\<close>

fun save_facts ::
  "(string \<Rightarrow> string \<Rightarrow> ds_result) \<Rightarrow> vector_memory_store \<Rightarrow> int \<Rightarrow> pyval list \<Rightarrow> vector_memory_store" where
  "save_facts tec vs user_id [] = vs"
| "save_facts tec vs user_id (x # xs) =
     save_facts tec
       (case x of
          PStr s \<Rightarrow> if strip s \<noteq> [] then add_memory tec vs user_id s else vs
        | _ \<Rightarrow> vs)
       user_id xs"

text \<open>
  Lines 160 to 163: \<open>None\<close> when iterating over \<open>facts\<close> raises, else the vector store
  afterwards. \<open>user_id\<close> and \<open>facts\<close> are tested for truth: a \<open>user_id\<close> of 0 counts as none.
\<close>

definition persist_facts ::
  "(string \<Rightarrow> string \<Rightarrow> ds_result) \<Rightarrow> int option \<Rightarrow> vector_memory_store option \<Rightarrow> pyval \<Rightarrow>
   vector_memory_store option option" where
  "persist_facts tec user_id vector_store facts =
     (case user_id of
        None \<Rightarrow> Some vector_store
      | Some uid \<Rightarrow>
          if uid = 0 then Some vector_store
          else
            (case vector_store of
               None \<Rightarrow> Some vector_store
             | Some vs \<Rightarrow>
                 if \<not> truthy facts then Some vector_store
                 else
                   (case py_iter facts of
                      None \<Rightarrow> None
                    | Some fs \<Rightarrow> Some (Some (save_facts tec vs uid fs)))))"

text \<open>
  Lines 149 to 157: the history entry is appended and the profile is overwritten, each
  under its own test. \<open>current_memory\<close> is the profile read before the request.
\<close>

definition save_outputs ::
  "(pyval \<Rightarrow> string) \<Rightarrow> memory_store \<Rightarrow> string \<Rightarrow> (string \<times> pyval) list \<Rightarrow> memory_store" where
  "save_outputs json_dumps ms current_memory args =
     (let entry = dict_get args ''history_entry'';
          ms1 = (if truthy entry then append_history ms (coerce_str json_dumps entry) else ms);
          update = dict_get args ''memory_update''
      in if truthy update
         then (if coerce_str json_dumps update \<noteq> current_memory
               then write_long_term ms1 (coerce_str json_dumps update)
               else ms1)
         else ms1)"

definition consolidate ::
  "(string \<Rightarrow> pyval option) \<Rightarrow> (pyval \<Rightarrow> string) \<Rightarrow> (string \<Rightarrow> string \<Rightarrow> ds_result) \<Rightarrow>
   memory_store \<Rightarrow> session \<Rightarrow> ((string \<times> string) list \<Rightarrow> string \<Rightarrow> chat_result) \<Rightarrow> string \<Rightarrow>
   bool \<Rightarrow> int \<Rightarrow> int option \<Rightarrow> vector_memory_store option \<Rightarrow>
   bool \<times> memory_store \<times> session \<times> vector_memory_store option" where
  "consolidate json_loads json_dumps tec ms session provider model archive_all memory_window
     user_id vector_store =
     (case select_old_messages session archive_all memory_window of
        None \<Rightarrow> (True, ms, session, vector_store)
      | Some (old_messages, keep_count) \<Rightarrow>
          let lines = format_lines old_messages;
              current_memory = read_long_term ms;
              prompt = build_prompt current_memory lines
          in
          (case provider [(''system'', system_prompt), (''user'', prompt)] model of
             ChatRaises \<Rightarrow> (False, ms, session, vector_store)
           | ChatResponse response \<Rightarrow>
               if \<not> has_tool_calls response then (False, ms, session, vector_store)
               else
                 (case tool_calls response of
                    [] \<Rightarrow> (False, ms, session, vector_store)
                  | tc # tcs \<Rightarrow>
                      (case parse_arguments json_loads (arguments tc) of
                         None \<Rightarrow> (False, ms, session, vector_store)
                       | Some args \<Rightarrow>
                           let ms' = save_outputs json_dumps ms current_memory args in
                           (case persist_facts tec user_id vector_store (dict_get args ''facts'') of
                              None \<Rightarrow> (False, ms', session, vector_store)
                            | Some vector_store' \<Rightarrow>
                                (True, ms',
                                 session\<lparr>last_consolidated :=
                                   (if archive_all then 0
                                    else int (length (messages session)) - keep_count)\<rparr>,
                                 vector_store'))))))"

text \<open>
  The facts the claim about fact persistence speaks of, in the order of the payload: the
  elements that are strings and are not empty once whitespace is trimmed.
\<close>

fun forwarded_facts :: "pyval list \<Rightarrow> string list" where
  "forwarded_facts [] = []"
| "forwarded_facts (PStr s # xs) = (if strip s \<noteq> [] then s # forwarded_facts xs else forwarded_facts xs)"
| "forwarded_facts (x # xs) = forwarded_facts xs"

text \<open>
  What the log says was written to each file: the contents handed to \<open>write_long_term\<close>,
  and the blocks appended to the history, in order.
\<close>

fun profile_writes :: "fs_event list \<Rightarrow> string list" where
  "profile_writes [] = []"
| "profile_writes (WriteMemory c # es) = c # profile_writes es"
| "profile_writes (AppendHistory b # es) = profile_writes es"

fun history_appends :: "fs_event list \<Rightarrow> string list" where
  "history_appends [] = []"
| "history_appends (AppendHistory b # es) = b # history_appends es"
| "history_appends (WriteMemory c # es) = history_appends es"

section \<open>Scenarios\<close>

text \<open>
  The concrete objects of the scenarios of the specification: a message, a store whose
  profile has content, a response that calls the tool with a payload, the payload of the
  third scenario, and stand-ins for the library functions (a parser that refuses every
  string, a serializer that is right on the one-string lists the scenarios use, an embedding
  client that answers with one vector unless the text is \<open>unembeddable\<close>).
\<close>

definition scenario_message :: message where
  "scenario_message =
     \<lparr>role = ''user'', content = Some ''We should plan the trip'',
      timestamp = Some ''2024-01-01T10:00:00'', tools_used = None\<rparr>"

definition scenario_store :: memory_store where
  "scenario_store = \<lparr>memory_file = Some ''User likes tea'', history_file = None, fs_log = []\<rparr>"

definition scenario_response :: "pyval \<Rightarrow> (string \<times> string) list \<Rightarrow> string \<Rightarrow> chat_result" where
  "scenario_response args msgs model =
     ChatResponse \<lparr>has_tool_calls = True, tool_calls = [\<lparr>arguments = args\<rparr>]\<rparr>"

definition scenario_args :: "(string \<times> pyval) list" where
  "scenario_args =
     [(''history_entry'', PStr ''[2024-01-01 10:00] Discussed trip''),
      (''memory_update'', PStr ''User likes hiking''),
      (''facts'', PList [PStr ''User has a dog named Rex''])]"

definition scenario_payload :: pyval where
  "scenario_payload = PDict scenario_args"

definition refuse_all :: "string \<Rightarrow> pyval option" where
  "refuse_all s = None"

definition dumps_stub :: "pyval \<Rightarrow> string" where
  "dumps_stub v =
     (case v of
        PList [PStr s] \<Rightarrow> ''['' @ [CHR 0x22] @ s @ [CHR 0x22] @ '']''
      | _ \<Rightarrow> ''null'')"

definition embed_stub :: "string \<Rightarrow> string \<Rightarrow> ds_result" where
  "embed_stub model text = (if text = ''unembeddable'' then DsRaises else DsResponse 200 [[1, 0]])"

definition scenario_pool :: pg_pool where
  "scenario_pool =
     \<lparr>users = [7], users_id_seq = 8, user_identities = [], vector_memories = [],
      vector_memories_id_seq = 1, faults = []\<rparr>"

definition scenario_vector_store :: vector_memory_store where
  "scenario_vector_store =
     \<lparr>vs_db = Some \<lparr>enabled = True, pool = Some scenario_pool\<rparr>, api_key = ''key'',
      vs_model = ''text-embedding-v3''\<rparr>"

text \<open>
  A store with facts of two users for the search, and a stand-in for the distance of the
  engine (the sum of the absolute differences of the coordinates).
\<close>

definition l1_distance :: "embedding \<Rightarrow> embedding \<Rightarrow> real" where
  "l1_distance a b = sum_list (map2 (\<lambda>x y. \<bar>x - y\<bar>) a b)"

definition scenario_search_store :: vector_memory_store where
  "scenario_search_store =
     \<lparr>vs_db = Some \<lparr>enabled = True,
         pool = Some \<lparr>users = [7, 9], users_id_seq = 10, user_identities = [],
           vector_memories =
             [\<lparr>vm_id = 1, vm_user_id = 7, vm_content = ''User lives in Paris'', vm_embedding = [5, 0]\<rparr>,
              \<lparr>vm_id = 2, vm_user_id = 9, vm_content = ''User has a cat'', vm_embedding = [1, 0]\<rparr>,
              \<lparr>vm_id = 3, vm_user_id = 7, vm_content = ''User has a dog named Rex'', vm_embedding = [1, 0]\<rparr>,
              \<lparr>vm_id = 4, vm_user_id = 7, vm_content = ''User walks the dog daily'', vm_embedding = [2, 0]\<rparr>],
           vector_memories_id_seq = 5, faults = []\<rparr>\<rparr>,
      api_key = ''key'', vs_model = ''text-embedding-v3''\<rparr>"

section \<open>Facts about stripping\<close>

lemma rstrip_decomp: "\<exists>ws. entry = rstrip entry @ ws \<and> list_all py_isspace ws"
proof -
  have "rev entry = takeWhile py_isspace (rev entry) @ dropWhile py_isspace (rev entry)"
    by simp
  then have "entry = rev (dropWhile py_isspace (rev entry)) @ rev (takeWhile py_isspace (rev entry))"
    by (metis rev_append rev_rev_ident)
  moreover have "list_all py_isspace (rev (takeWhile py_isspace (rev entry)))"
    by (simp add: list_all_iff) (meson set_takeWhileD)
  ultimately show ?thesis
    unfolding rstrip_def by blast
qed

lemma rstrip_no_trailing: "rstrip entry \<noteq> [] \<Longrightarrow> \<not> py_isspace (last (rstrip entry))"
  unfolding rstrip_def
  by (metis hd_dropWhile last_rev rev_is_Nil_conv)

lemma rstrip_append_ws: "list_all py_isspace ws \<Longrightarrow> rstrip (entry @ ws) = rstrip entry"
  unfolding rstrip_def
  by (simp add: list_all_iff dropWhile_append)

section \<open>The history log\<close>

text \<open>
  Claim C10. \<open>append_history entry\<close> writes, at the end of the history file, the entry
  without its trailing whitespace followed by two line feeds, and nothing else changes.
  What is cut from the entry is whitespace only, what is kept does not end in whitespace,
  and further whitespace at the end of the entry does not change what is written: the
  block always ends in exactly one blank line.
\<close>

theorem append_history_block:
  "history_file (append_history ms entry) =
     Some ((case history_file ms of Some h \<Rightarrow> h | None \<Rightarrow> []) @ rstrip entry @ newline @ newline) \<and>
   fs_log (append_history ms entry) = fs_log ms @ [AppendHistory (rstrip entry @ newline @ newline)] \<and>
   memory_file (append_history ms entry) = memory_file ms \<and>
   (\<exists>ws. entry = rstrip entry @ ws \<and> list_all py_isspace ws) \<and>
   (rstrip entry \<noteq> [] \<longrightarrow> \<not> py_isspace (last (rstrip entry))) \<and>
   (list_all py_isspace ws' \<longrightarrow> append_history ms (entry @ ws') = append_history ms entry)"
  using rstrip_decomp [of entry] rstrip_no_trailing [of entry] rstrip_append_ws [of ws' entry]
  by (simp add: append_history_def Let_def)

theorem append_history_block_witness:
  "rstrip (''[2024-01-01 10:00] Trip  '' @ newline @ newline @ newline) = ''[2024-01-01 10:00] Trip'' \<and>
   list_all py_isspace (newline @ '' '') \<and>
   append_history \<lparr>memory_file = None, history_file = Some ''x'', fs_log = []\<rparr>
       ((''[2024-01-01 10:00] Trip  '' @ newline @ newline @ newline) @ (newline @ '' ''))
     = append_history \<lparr>memory_file = None, history_file = Some ''x'', fs_log = []\<rparr>
         (''[2024-01-01 10:00] Trip  '' @ newline @ newline @ newline) \<and>
   history_file (append_history \<lparr>memory_file = None, history_file = Some ''x'', fs_log = []\<rparr>
       (''[2024-01-01 10:00] Trip  '' @ newline @ newline @ newline))
     = Some (''x[2024-01-01 10:00] Trip'' @ newline @ newline)"
proof -
  have ws: "list_all py_isspace (newline @ '' '')"
    by (simp add: newline_def py_isspace_def)
  have r: "rstrip (''[2024-01-01 10:00] Trip  '' @ newline @ newline @ newline) = ''[2024-01-01 10:00] Trip''"
    by (simp add: rstrip_def newline_def py_isspace_def)
  from append_history_block
         [of "\<lparr>memory_file = None, history_file = Some ''x'', fs_log = []\<rparr>"
             "''[2024-01-01 10:00] Trip  '' @ newline @ newline @ newline" "newline @ '' ''"]
  show ?thesis
    using ws r by simp
qed

section \<open>The paths through consolidate\<close>

lemma consolidate_noop:
  "select_old_messages session archive_all memory_window = None \<Longrightarrow>
   consolidate jl jd tec ms session provider model archive_all memory_window user_id vector_store
     = (True, ms, session, vector_store)"
  by (simp add: consolidate_def)

lemma consolidate_handled:
  assumes "select_old_messages session archive_all memory_window = Some (old_messages, keep_count)"
    and "provider [(''system'', system_prompt),
                   (''user'', build_prompt (read_long_term ms) (format_lines old_messages))] model
         = ChatResponse response"
    and "has_tool_calls response"
    and "tool_calls response = tc # tcs"
    and "parse_arguments jl (arguments tc) = Some args"
  shows "consolidate jl jd tec ms session provider model archive_all memory_window user_id vector_store
     = (case persist_facts tec user_id vector_store (dict_get args ''facts'') of
          None \<Rightarrow> (False, save_outputs jd ms (read_long_term ms) args, session, vector_store)
        | Some vector_store' \<Rightarrow>
            (True, save_outputs jd ms (read_long_term ms) args,
             session\<lparr>last_consolidated :=
               (if archive_all then 0 else int (length (messages session)) - keep_count)\<rparr>,
             vector_store'))"
  using assms unfolding consolidate_def Let_def by (simp split: option.splits)

lemma consolidate_cases:
  "(select_old_messages session archive_all memory_window = None \<and>
    consolidate jl jd tec ms session provider model archive_all memory_window user_id vector_store
      = (True, ms, session, vector_store)) \<or>
   (select_old_messages session archive_all memory_window \<noteq> None \<and>
    consolidate jl jd tec ms session provider model archive_all memory_window user_id vector_store
      = (False, ms, session, vector_store)) \<or>
   (\<exists>old_messages keep_count args ms'. select_old_messages session archive_all memory_window = Some (old_messages, keep_count) \<and>
      consolidate jl jd tec ms session provider model archive_all memory_window user_id vector_store
     = (case persist_facts tec user_id vector_store (dict_get args ''facts'') of
          None \<Rightarrow> (False, ms', session, vector_store)
        | Some vector_store' \<Rightarrow>
            (True, ms',
             session\<lparr>last_consolidated :=
               (if archive_all then 0 else int (length (messages session)) - keep_count)\<rparr>,
             vector_store')))"
proof (cases "select_old_messages session archive_all memory_window")
  case None
  then show ?thesis by (simp add: consolidate_def)
next
  case (Some a)
  obtain old_messages keep_count where a: "a = (old_messages, keep_count)" by (cases a)
  note sel = Some [unfolded a]
  show ?thesis
  proof (cases "provider [(''system'', system_prompt),
                   (''user'', build_prompt (read_long_term ms) (format_lines old_messages))] model")
    case ChatRaises
    with sel show ?thesis by (simp add: consolidate_def)
  next
    case (ChatResponse response)
    show ?thesis
    proof (cases "has_tool_calls response")
      case False
      with sel ChatResponse show ?thesis by (simp add: consolidate_def)
    next
      case True
      show ?thesis
      proof (cases "tool_calls response")
        case Nil
        with sel ChatResponse True show ?thesis by (simp add: consolidate_def)
      next
        case (Cons tc tcs)
        show ?thesis
        proof (cases "parse_arguments jl (arguments tc)")
          case None
          with sel ChatResponse True Cons show ?thesis by (simp add: consolidate_def)
        next
          case (Some args)
          from consolidate_handled [where provider=provider and model=model and ms=ms, OF sel ChatResponse True Cons Some]
          show ?thesis using sel by blast
        qed
      qed
    qed
  qed
qed

lemma select_keep_count:
  "select_old_messages session archive_all memory_window = Some (old_messages, keep_count) \<Longrightarrow>
   keep_count = (if archive_all then 0 else memory_window div 2)"
  by (auto simp add: select_old_messages_def Let_def split: if_splits)

lemma consolidate_session:
  assumes "consolidate jl jd tec ms session provider model archive_all memory_window user_id vector_store
             = (ok, ms', session', vector_store')"
  shows "messages session' = messages session \<and>
         last_consolidated session' =
           (if ok \<and> select_old_messages session archive_all memory_window \<noteq> None
            then (if archive_all then 0
                  else int (length (messages session)) - memory_window div 2)
            else last_consolidated session)"
  using consolidate_cases [of session archive_all memory_window jl jd tec ms provider model user_id vector_store] assms
  by (auto split: option.splits dest: select_keep_count)

section \<open>The slice that is consolidated\<close>

lemma py_slice_nonempty:
  "py_slice xs start stop \<noteq> [] \<Longrightarrow>
   slice_index (length xs) start < slice_index (length xs) stop \<and> slice_index (length xs) start < length xs"
  by (auto simp add: py_slice_def Let_def)

lemma py_slice_neg_stop:
  "0 < k \<Longrightarrow> k < int (length xs) \<Longrightarrow> py_slice xs start (- k) = py_slice xs start (int (length xs) - k)"
  by (simp add: py_slice_def slice_index_def Let_def)

lemma select_old_messages_window:
  assumes "2 \<le> memory_window"
  shows "select_old_messages session False memory_window =
     (if int (length (messages session)) \<le> memory_window div 2 \<or>
         int (length (messages session)) - last_consolidated session \<le> 0 \<or>
         py_slice (messages session) (last_consolidated session)
           (int (length (messages session)) - memory_window div 2) = []
      then None
      else Some (py_slice (messages session) (last_consolidated session)
                   (int (length (messages session)) - memory_window div 2),
                 memory_window div 2))"
proof -
  from assms have k: "0 < memory_window div 2" by simp
  show ?thesis
    using py_slice_neg_stop [OF k, of "messages session" "last_consolidated session"]
    by (auto simp add: select_old_messages_def Let_def)
qed

lemma select_advances:
  assumes "select_old_messages session False memory_window = Some (old_messages, keep_count)"
  shows "last_consolidated session < int (length (messages session)) - keep_count"
proof -
  from assms have k: "keep_count = memory_window div 2"
    and n: "keep_count < int (length (messages session))"
    and ne: "py_slice (messages session) (last_consolidated session) (- keep_count) \<noteq> []"
    by (auto simp add: select_old_messages_def Let_def split: if_splits)
  from py_slice_nonempty [OF ne] n show ?thesis
    by (auto simp add: slice_index_def split: if_splits)
qed

lemma select_zero_keep:
  "memory_window div 2 = 0 \<Longrightarrow> select_old_messages session False memory_window = None"
  by (simp add: select_old_messages_def Let_def py_slice_def slice_index_def)

section \<open>Runs of the scenarios\<close>

lemma sel60: "select_old_messages \<lparr>messages = replicate 60 scenario_message, last_consolidated = 0\<rparr> False 50
   = Some (replicate 35 scenario_message, 25)"
  by (simp add: select_old_messages_def py_slice_def slice_index_def Let_def)

lemma run60: "consolidate refuse_all dumps_stub embed_stub scenario_store
     \<lparr>messages = replicate 60 scenario_message, last_consolidated = 0\<rparr>
     (scenario_response scenario_payload) ''m'' False 50 (Some 7) (Some scenario_vector_store)
   = (True,
      \<lparr>memory_file = Some ''User likes hiking'',
       history_file = Some (''[2024-01-01 10:00] Discussed trip'' @ newline @ newline),
       fs_log = [AppendHistory (''[2024-01-01 10:00] Discussed trip'' @ newline @ newline), WriteMemory ''User likes hiking'']\<rparr>,
      \<lparr>messages = replicate 60 scenario_message, last_consolidated = 35\<rparr>,
      Some (set_pool scenario_vector_store
        (scenario_pool\<lparr>vector_memories := [\<lparr>vm_id = 1, vm_user_id = 7, vm_content = ''User has a dog named Rex'', vm_embedding = [1, 0]\<rparr>],
           vector_memories_id_seq := 2\<rparr>)))"
  unfolding consolidate_def sel60
  by (simp add: scenario_response_def scenario_payload_def scenario_args_def parse_arguments_def save_outputs_def
      dict_get_def append_history_def write_long_term_def read_long_term_def scenario_store_def
      coerce_str_def persist_facts_def add_memory_def available_pool_def scenario_vector_store_def
      get_embeddings_def embed_stub_def round_trip_def scenario_pool_def set_pool_def
      strip_def rstrip_def py_isspace_def newline_def Let_def)

lemma sel_one: "select_old_messages \<lparr>messages = [scenario_message], last_consolidated = 0\<rparr> False 1 = None"
  by (simp add: select_old_messages_def py_slice_def slice_index_def Let_def)

lemma sel3: "select_old_messages \<lparr>messages = replicate 3 scenario_message, last_consolidated = 0\<rparr> False 2
   = Some (replicate 2 scenario_message, 1)"
  by (simp add: select_old_messages_def py_slice_def slice_index_def Let_def)

lemma sel_archive: "select_old_messages session True memory_window = Some (messages session, 0)"
  by (simp add: select_old_messages_def)

lemma run_archive: "consolidate refuse_all dumps_stub embed_stub scenario_store
     \<lparr>messages = replicate 10 scenario_message, last_consolidated = 4\<rparr>
     (scenario_response scenario_payload) ''m'' True 50 None None
   = (True,
      \<lparr>memory_file = Some ''User likes hiking'',
       history_file = Some (''[2024-01-01 10:00] Discussed trip'' @ newline @ newline),
       fs_log = [AppendHistory (''[2024-01-01 10:00] Discussed trip'' @ newline @ newline), WriteMemory ''User likes hiking'']\<rparr>,
      \<lparr>messages = replicate 10 scenario_message, last_consolidated = 0\<rparr>,
      None)"
  unfolding consolidate_def sel_archive
  by (simp add: scenario_response_def scenario_payload_def scenario_args_def parse_arguments_def save_outputs_def
      dict_get_def append_history_def write_long_term_def read_long_term_def scenario_store_def
      coerce_str_def persist_facts_def
      rstrip_def py_isspace_def newline_def Let_def)

section \<open>The candidate slice\<close>

text \<open>
  Claim C1. Without \<open>archive_all\<close>, \<open>keep_count\<close> is \<open>memory_window div 2\<close>, the call is a
  success that changes nothing when the session has at most \<open>keep_count\<close> messages or
  nothing after the cursor, and the candidate slice is
  \<open>messages[last_consolidated : len(messages) - keep_count]\<close>. For a window of at least 2
  this is \<open>select_old_messages_window\<close> with \<open>consolidate_noop\<close>. For a window of 1 (or 0)
  \<open>keep_count\<close> is 0 and the source's slice \<open>messages[last_consolidated:-keep_count]\<close> ends
  at index 0: with one unconsolidated message the slice of the claim is that message, the
  slice of the code is empty, and the call returns true without asking the provider.
\<close>

theorem consolidate_window_one_skips:
  "py_slice [scenario_message] 0 (int (length [scenario_message]) - 1 div 2) = [scenario_message] \<and>
   py_slice [scenario_message] 0 (- (1 div 2)) = [] \<and>
   consolidate jl jd tec ms \<lparr>messages = [scenario_message], last_consolidated = 0\<rparr>
       provider model False 1 user_id vector_store
     = (True, ms, \<lparr>messages = [scenario_message], last_consolidated = 0\<rparr>, vector_store)"
  using consolidate_noop [OF sel_one]
  by (simp add: py_slice_def slice_index_def Let_def)

section \<open>The cursor\<close>

text \<open>
  Claim C2. After a call that returns true past the early returns, the cursor is 0 with
  \<open>archive_all\<close> and \<open>len(messages) - memory_window div 2\<close> without it; on every other
  path (an early return, a failure) the cursor is what it was, and the messages are never
  changed.
\<close>

theorem consolidate_cursor:
  assumes "consolidate jl jd tec ms session provider model archive_all memory_window user_id vector_store
             = (ok, ms', session', vector_store')"
  shows "messages session' = messages session \<and>
         last_consolidated session' =
           (if ok \<and> select_old_messages session archive_all memory_window \<noteq> None
            then (if archive_all then 0
                  else int (length (messages session)) - memory_window div 2)
            else last_consolidated session)"
  by (rule consolidate_session [OF assms])

theorem consolidate_cursor_witness:
  "fst (consolidate refuse_all dumps_stub embed_stub scenario_store
          \<lparr>messages = replicate 60 scenario_message, last_consolidated = 0\<rparr>
          (scenario_response scenario_payload) ''m'' False 50 (Some 7) (Some scenario_vector_store)) \<and>
   select_old_messages \<lparr>messages = replicate 60 scenario_message, last_consolidated = 0\<rparr> False 50 \<noteq> None \<and>
   last_consolidated (fst (snd (snd (consolidate refuse_all dumps_stub embed_stub scenario_store
          \<lparr>messages = replicate 60 scenario_message, last_consolidated = 0\<rparr>
          (scenario_response scenario_payload) ''m'' False 50 (Some 7) (Some scenario_vector_store))))) = 35"
  using consolidate_cursor [OF run60] by (simp add: run60 sel60)

text \<open>
  Claim C5, as amended. A call with a non-negative window keeps the cursor between 0 and
  the number of messages when it was there before; a call without \<open>archive_all\<close> never
  moves the cursor back; a successful call with \<open>archive_all\<close> sets it to 0; a call that
  fails or returns early leaves it alone. As stated the claim fails: \<open>archive_all\<close> moves
  a cursor of 4 back to 0.
\<close>

theorem consolidate_cursor_invariant:
  assumes "consolidate jl jd tec ms session provider model archive_all memory_window user_id vector_store
             = (ok, ms', session', vector_store')"
  shows "(0 \<le> memory_window \<and> 0 \<le> last_consolidated session \<and>
            last_consolidated session \<le> int (length (messages session)) \<longrightarrow>
          0 \<le> last_consolidated session' \<and>
            last_consolidated session' \<le> int (length (messages session'))) \<and>
         (\<not> archive_all \<longrightarrow> last_consolidated session \<le> last_consolidated session') \<and>
         (archive_all \<and> ok \<longrightarrow> last_consolidated session' = 0) \<and>
         (\<not> ok \<or> select_old_messages session archive_all memory_window = None \<longrightarrow>
            last_consolidated session' = last_consolidated session)"
proof -
  note cur = consolidate_session [OF assms]
  show ?thesis
  proof (cases "ok \<and> select_old_messages session archive_all memory_window \<noteq> None")
    case False
    with cur show ?thesis by (auto simp add: sel_archive)
  next
    case True
    show ?thesis
    proof (cases archive_all)
      case True
      with cur \<open>ok \<and> _\<close> show ?thesis by (auto simp add: sel_archive)
    next
      case False
      with True obtain old_messages keep_count where
        sel: "select_old_messages session False memory_window = Some (old_messages, keep_count)"
        by auto
      from select_advances [OF sel] select_keep_count [OF sel]
      have adv: "last_consolidated session < int (length (messages session)) - memory_window div 2"
        by simp
      have "0 \<le> memory_window \<Longrightarrow> 0 \<le> memory_window div 2" by simp
      with cur True False adv show ?thesis by auto
    qed
  qed
qed

theorem consolidate_cursor_invariant_witness:
  "(0::int) \<le> 50 \<and> (0::int) \<le> 0 \<and> (0::int) \<le> int (length (replicate 60 scenario_message)) \<and>
   fst (consolidate refuse_all dumps_stub embed_stub scenario_store
          \<lparr>messages = replicate 60 scenario_message, last_consolidated = 0\<rparr>
          (scenario_response scenario_payload) ''m'' False 50 (Some 7) (Some scenario_vector_store)) \<and>
   0 \<le> last_consolidated (fst (snd (snd (consolidate refuse_all dumps_stub embed_stub scenario_store
          \<lparr>messages = replicate 60 scenario_message, last_consolidated = 0\<rparr>
          (scenario_response scenario_payload) ''m'' False 50 (Some 7) (Some scenario_vector_store))))) \<and>
   last_consolidated (fst (snd (snd (consolidate refuse_all dumps_stub embed_stub scenario_store
          \<lparr>messages = replicate 60 scenario_message, last_consolidated = 0\<rparr>
          (scenario_response scenario_payload) ''m'' False 50 (Some 7) (Some scenario_vector_store)))))
     \<le> 60"
  using consolidate_cursor_invariant [OF run60] by (simp add: run60)

theorem cursor_monotone_counterexample:
  "fst (consolidate refuse_all dumps_stub embed_stub scenario_store
          \<lparr>messages = replicate 10 scenario_message, last_consolidated = 4\<rparr>
          (scenario_response scenario_payload) ''m'' True 50 None None) \<and>
   \<not> last_consolidated \<lparr>messages = replicate 10 scenario_message, last_consolidated = 4\<rparr>
       \<le> last_consolidated (fst (snd (snd (consolidate refuse_all dumps_stub embed_stub scenario_store
          \<lparr>messages = replicate 10 scenario_message, last_consolidated = 4\<rparr>
          (scenario_response scenario_payload) ''m'' True 50 None None))))"
  by (simp add: run_archive)

section \<open>Refused responses\<close>

text \<open>
  Claim C3. When the response to the request has no tool call, or the payload of its
  first tool call is a string that \<open>json.loads\<close> refuses or parses to something that is not
  a mapping, \<open>consolidate\<close> returns false and the files, the log of writes, the session with
  its cursor and the vector store are what they were.
\<close>

theorem consolidate_refuses:
  assumes "select_old_messages session archive_all memory_window = Some (old_messages, keep_count)"
    and "provider [(''system'', system_prompt),
                   (''user'', build_prompt (read_long_term ms) (format_lines old_messages))] model
         = ChatResponse response"
    and "\<not> has_tool_calls response \<or>
         (\<exists>tc tcs s. tool_calls response = tc # tcs \<and> arguments tc = PStr s \<and>
            (json_loads s = None \<or> (\<exists>v. json_loads s = Some v \<and> (\<forall>d. v \<noteq> PDict d))))"
  shows "consolidate json_loads json_dumps tec ms session provider model archive_all memory_window
           user_id vector_store
         = (False, ms, session, vector_store)"
proof (cases "has_tool_calls response")
  case False
  with assms(1,2) show ?thesis by (simp add: consolidate_def)
next
  case True
  with assms(3) obtain tc tcs s where tc: "tool_calls response = tc # tcs" "arguments tc = PStr s"
    and bad: "json_loads s = None \<or> (\<exists>v. json_loads s = Some v \<and> (\<forall>d. v \<noteq> PDict d))"
    by blast
  from bad tc(2) have "parse_arguments json_loads (arguments tc) = None"
    by (auto simp add: parse_arguments_def split: pyval.splits)
  with assms(1,2) True tc(1) show ?thesis by (simp add: consolidate_def)
qed

theorem consolidate_refuses_witness:
  "consolidate refuse_all dumps_stub embed_stub scenario_store
       \<lparr>messages = replicate 3 scenario_message, last_consolidated = 0\<rparr>
       (scenario_response (PStr ''{not json'')) ''m'' False 2 (Some 7) (Some scenario_vector_store)
     = (False, scenario_store, \<lparr>messages = replicate 3 scenario_message, last_consolidated = 0\<rparr>,
        Some scenario_vector_store)"
proof (rule consolidate_refuses [OF sel3])
  show "scenario_response (PStr ''{not json'')
          [(''system'', system_prompt),
           (''user'', build_prompt (read_long_term scenario_store) (format_lines (replicate 2 scenario_message)))] ''m''
        = ChatResponse \<lparr>has_tool_calls = True, tool_calls = [\<lparr>arguments = PStr ''{not json''\<rparr>]\<rparr>"
    by (simp add: scenario_response_def)
  show "\<not> has_tool_calls \<lparr>has_tool_calls = True, tool_calls = [\<lparr>arguments = PStr ''{not json''\<rparr>]\<rparr> \<or>
        (\<exists>tc tcs s. tool_calls \<lparr>has_tool_calls = True, tool_calls = [\<lparr>arguments = PStr ''{not json''\<rparr>]\<rparr> = tc # tcs \<and>
            arguments tc = PStr s \<and>
            (refuse_all s = None \<or> (\<exists>v. refuse_all s = Some v \<and> (\<forall>d. v \<noteq> PDict d))))"
    by (simp add: refuse_all_def)
qed

section \<open>What a handled response writes\<close>

lemma profile_writes_append: "profile_writes (xs @ ys) = profile_writes xs @ profile_writes ys"
  by (induction xs rule: profile_writes.induct) simp_all

lemma history_appends_append: "history_appends (xs @ ys) = history_appends xs @ history_appends ys"
  by (induction xs rule: history_appends.induct) simp_all

lemma save_outputs_profile:
  "memory_file (save_outputs jd ms cur args) =
     (if truthy (dict_get args ''memory_update'') \<and> coerce_str jd (dict_get args ''memory_update'') \<noteq> cur
      then Some (coerce_str jd (dict_get args ''memory_update''))
      else memory_file ms) \<and>
   profile_writes (fs_log (save_outputs jd ms cur args)) =
     profile_writes (fs_log ms) @
     (if truthy (dict_get args ''memory_update'') \<and> coerce_str jd (dict_get args ''memory_update'') \<noteq> cur
      then [coerce_str jd (dict_get args ''memory_update'')]
      else [])"
  by (simp add: save_outputs_def Let_def append_history_def write_long_term_def profile_writes_append)

lemma save_outputs_history:
  "history_file (save_outputs jd ms cur args) =
     (if truthy (dict_get args ''history_entry'')
      then Some ((case history_file ms of Some h \<Rightarrow> h | None \<Rightarrow> []) @
                 rstrip (coerce_str jd (dict_get args ''history_entry'')) @ newline @ newline)
      else history_file ms) \<and>
   history_appends (fs_log (save_outputs jd ms cur args)) =
     history_appends (fs_log ms) @
     (if truthy (dict_get args ''history_entry'')
      then [rstrip (coerce_str jd (dict_get args ''history_entry'')) @ newline @ newline]
      else [])"
  by (simp add: save_outputs_def Let_def append_history_def write_long_term_def history_appends_append)

lemma consolidate_store:
  assumes "select_old_messages session archive_all memory_window = Some (old_messages, keep_count)"
    and "provider [(''system'', system_prompt),
                   (''user'', build_prompt (read_long_term ms) (format_lines old_messages))] model
         = ChatResponse response"
    and "has_tool_calls response"
    and "tool_calls response = tc # tcs"
    and "parse_arguments jl (arguments tc) = Some args"
    and "consolidate jl jd tec ms session provider model archive_all memory_window user_id vector_store
           = (ok, ms', session', vector_store')"
  shows "ms' = save_outputs jd ms (read_long_term ms) args"
    and "persist_facts tec user_id vector_store (dict_get args ''facts'') =
           (if ok then Some vector_store' else None)"
    and "\<not> ok \<Longrightarrow> vector_store' = vector_store"
  using consolidate_handled [where provider=provider and model=model and ms=ms, OF assms(1-5),
          of jd tec user_id vector_store] assms(6)
  by (auto split: option.splits)

lemmas run_simps = scenario_response_def scenario_payload_def scenario_args_def parse_arguments_def save_outputs_def
      dict_get_def append_history_def write_long_term_def read_long_term_def scenario_store_def
      coerce_str_def persist_facts_def add_memory_def available_pool_def scenario_vector_store_def
      get_embeddings_def embed_stub_def round_trip_def scenario_pool_def set_pool_def dumps_stub_def
      strip_def rstrip_def py_isspace_def newline_def Let_def

lemma run_empty_update:
  "consolidate refuse_all dumps_stub embed_stub scenario_store
     \<lparr>messages = replicate 3 scenario_message, last_consolidated = 0\<rparr>
     (scenario_response (PDict [(''history_entry'', PStr ''[2024-01-01 10:00] Discussed trip''),
                                (''memory_update'', PStr [])]))
     ''m'' False 2 None None
   = (True,
      \<lparr>memory_file = Some ''User likes tea'',
       history_file = Some (''[2024-01-01 10:00] Discussed trip'' @ newline @ newline),
       fs_log = [AppendHistory (''[2024-01-01 10:00] Discussed trip'' @ newline @ newline)]\<rparr>,
      \<lparr>messages = replicate 3 scenario_message, last_consolidated = 2\<rparr>,
      None)"
  unfolding consolidate_def sel3
  by (simp add: run_simps)

lemma run_zero_entry:
  "consolidate refuse_all dumps_stub embed_stub scenario_store
     \<lparr>messages = replicate 3 scenario_message, last_consolidated = 0\<rparr>
     (scenario_response (PDict [(''history_entry'', PInt 0),
                                (''memory_update'', PStr ''User likes hiking'')]))
     ''m'' False 2 None None
   = (True,
      \<lparr>memory_file = Some ''User likes hiking'',
       history_file = None,
       fs_log = [WriteMemory ''User likes hiking'']\<rparr>,
      \<lparr>messages = replicate 3 scenario_message, last_consolidated = 2\<rparr>,
      None)"
  unfolding consolidate_def sel3
  by (simp add: run_simps)

lemma run_list_entry:
  "consolidate refuse_all dumps_stub embed_stub scenario_store
     \<lparr>messages = replicate 3 scenario_message, last_consolidated = 0\<rparr>
     (scenario_response (PDict [(''history_entry'', PList [PStr ''Discussed trip'']),
                                (''memory_update'', PStr ''User likes tea'')]))
     ''m'' False 2 None None
   = (True,
      \<lparr>memory_file = Some ''User likes tea'',
       history_file = Some (''['' @ [CHR 0x22] @ ''Discussed trip'' @ [CHR 0x22] @ '']'' @ newline @ newline),
       fs_log = [AppendHistory (''['' @ [CHR 0x22] @ ''Discussed trip'' @ [CHR 0x22] @ '']'' @ newline @ newline)]\<rparr>,
      \<lparr>messages = replicate 3 scenario_message, last_consolidated = 2\<rparr>,
      None)"
  unfolding consolidate_def sel3
  by (simp add: run_simps)

lemma scenario_handled:
  "scenario_response a msgs model =
     ChatResponse \<lparr>has_tool_calls = True, tool_calls = [\<lparr>arguments = a\<rparr>]\<rparr>"
  "has_tool_calls \<lparr>has_tool_calls = True, tool_calls = [\<lparr>arguments = a\<rparr>]\<rparr>"
  "tool_calls \<lparr>has_tool_calls = True, tool_calls = [\<lparr>arguments = a\<rparr>]\<rparr> = [\<lparr>arguments = a\<rparr>]"
  "parse_arguments jl (arguments \<lparr>arguments = PDict d\<rparr>) = Some d"
  by (simp_all add: scenario_response_def parse_arguments_def)

text \<open>
  Claim C4, as amended. In a call that reaches the handling of a valid argument mapping,
  the profile is written exactly when \<open>memory_update\<close> is present with a true value (not
  empty, not zero, not null, not false) and its string form differs from the profile read
  at the start of the call; what is written is that string form, and otherwise the file
  is not written at all. As stated the claim fails: an empty \<open>memory_update\<close> differs
  from a profile with content and is not written.
\<close>

theorem consolidate_profile_write:
  assumes "select_old_messages session archive_all memory_window = Some (old_messages, keep_count)"
    and "provider [(''system'', system_prompt),
                   (''user'', build_prompt (read_long_term ms) (format_lines old_messages))] model
         = ChatResponse response"
    and "has_tool_calls response"
    and "tool_calls response = tc # tcs"
    and "parse_arguments json_loads (arguments tc) = Some args"
    and "consolidate json_loads json_dumps tec ms session provider model archive_all memory_window
           user_id vector_store
         = (ok, ms', session', vector_store')"
  shows "profile_writes (fs_log ms') =
           profile_writes (fs_log ms) @
           (if truthy (dict_get args ''memory_update'') \<and>
               coerce_str json_dumps (dict_get args ''memory_update'') \<noteq> read_long_term ms
            then [coerce_str json_dumps (dict_get args ''memory_update'')]
            else []) \<and>
         memory_file ms' =
           (if truthy (dict_get args ''memory_update'') \<and>
               coerce_str json_dumps (dict_get args ''memory_update'') \<noteq> read_long_term ms
            then Some (coerce_str json_dumps (dict_get args ''memory_update''))
            else memory_file ms)"
  using consolidate_store(1) [where provider=provider and model=model and ms=ms, OF assms]
        save_outputs_profile [of json_dumps ms "read_long_term ms" args]
  by simp

theorem consolidate_profile_write_witness:
  "dict_get scenario_args ''memory_update'' = PStr ''User likes hiking'' \<and>
   read_long_term scenario_store = ''User likes tea'' \<and>
   profile_writes (fs_log (fst (snd (consolidate refuse_all dumps_stub embed_stub scenario_store
       \<lparr>messages = replicate 60 scenario_message, last_consolidated = 0\<rparr>
       (scenario_response scenario_payload) ''m'' False 50 (Some 7) (Some scenario_vector_store)))))
     = [''User likes hiking''] \<and>
   memory_file (fst (snd (consolidate refuse_all dumps_stub embed_stub scenario_store
       \<lparr>messages = replicate 60 scenario_message, last_consolidated = 0\<rparr>
       (scenario_response scenario_payload) ''m'' False 50 (Some 7) (Some scenario_vector_store))))
     = Some ''User likes hiking'' \<and>
   dict_get [(''history_entry'', PList [PStr ''Discussed trip'']),
             (''memory_update'', PStr ''User likes tea'')] ''memory_update''
     = PStr ''User likes tea'' \<and>
   profile_writes (fs_log (fst (snd (consolidate refuse_all dumps_stub embed_stub scenario_store
       \<lparr>messages = replicate 3 scenario_message, last_consolidated = 0\<rparr>
       (scenario_response (PDict [(''history_entry'', PList [PStr ''Discussed trip'']),
                                  (''memory_update'', PStr ''User likes tea'')]))
       ''m'' False 2 None None))))
     = []"
proof -
  have u1: "dict_get scenario_args ''memory_update'' = PStr ''User likes hiking''"
    by (simp add: dict_get_def scenario_args_def)
  have u2: "dict_get [(''history_entry'', PList [PStr ''Discussed trip'']),
             (''memory_update'', PStr ''User likes tea'')] ''memory_update''
     = PStr ''User likes tea''"
    by (simp add: dict_get_def)
  have cur: "read_long_term scenario_store = ''User likes tea''"
    by (simp add: read_long_term_def scenario_store_def)
  have empty: "profile_writes (fs_log scenario_store) = []"
    by (simp add: scenario_store_def)
  note a = consolidate_profile_write
          [where provider="scenario_response scenario_payload" and model="''m''"
             and ms=scenario_store and json_loads=refuse_all and args=scenario_args
             and tc="\<lparr>arguments = scenario_payload\<rparr>" and tcs="[]",
           OF sel60 scenario_handled(1) scenario_handled(2) scenario_handled(3)
              scenario_handled(4) [of refuse_all scenario_args, folded scenario_payload_def] run60]
  note b = consolidate_profile_write
          [where provider="scenario_response (PDict [(''history_entry'', PList [PStr ''Discussed trip'']),
                                (''memory_update'', PStr ''User likes tea'')])" and model="''m''"
             and ms=scenario_store and json_loads=refuse_all and tcs="[]",
           OF sel3 scenario_handled(1) scenario_handled(2) scenario_handled(3)
              scenario_handled(4) run_list_entry]
  from a have 1: "profile_writes (fs_log (fst (snd (consolidate refuse_all dumps_stub embed_stub scenario_store
       \<lparr>messages = replicate 60 scenario_message, last_consolidated = 0\<rparr>
       (scenario_response scenario_payload) ''m'' False 50 (Some 7) (Some scenario_vector_store)))))
     = [''User likes hiking''] \<and>
   memory_file (fst (snd (consolidate refuse_all dumps_stub embed_stub scenario_store
       \<lparr>messages = replicate 60 scenario_message, last_consolidated = 0\<rparr>
       (scenario_response scenario_payload) ''m'' False 50 (Some 7) (Some scenario_vector_store))))
     = Some ''User likes hiking''"
    unfolding run60 by (simp add: u1 cur empty coerce_str_def)
  from b have 2: "profile_writes (fs_log (fst (snd (consolidate refuse_all dumps_stub embed_stub scenario_store
       \<lparr>messages = replicate 3 scenario_message, last_consolidated = 0\<rparr>
       (scenario_response (PDict [(''history_entry'', PList [PStr ''Discussed trip'']),
                                  (''memory_update'', PStr ''User likes tea'')]))
       ''m'' False 2 None None))))
     = []"
    unfolding run_list_entry by (simp add: u2 cur empty coerce_str_def)
  from u1 u2 cur 1 2 show ?thesis by blast
qed

theorem profile_rewrite_counterexample:
  "coerce_str dumps_stub (dict_get [(''history_entry'', PStr ''[2024-01-01 10:00] Discussed trip''),
                                   (''memory_update'', PStr [])] ''memory_update'')
     \<noteq> read_long_term scenario_store \<and>
   fst (consolidate refuse_all dumps_stub embed_stub scenario_store
     \<lparr>messages = replicate 3 scenario_message, last_consolidated = 0\<rparr>
     (scenario_response (PDict [(''history_entry'', PStr ''[2024-01-01 10:00] Discussed trip''),
                                (''memory_update'', PStr [])]))
     ''m'' False 2 None None) \<and>
   profile_writes (fs_log (fst (snd (consolidate refuse_all dumps_stub embed_stub scenario_store
     \<lparr>messages = replicate 3 scenario_message, last_consolidated = 0\<rparr>
     (scenario_response (PDict [(''history_entry'', PStr ''[2024-01-01 10:00] Discussed trip''),
                                (''memory_update'', PStr [])]))
     ''m'' False 2 None None)))) = [] \<and>
   memory_file (fst (snd (consolidate refuse_all dumps_stub embed_stub scenario_store
     \<lparr>messages = replicate 3 scenario_message, last_consolidated = 0\<rparr>
     (scenario_response (PDict [(''history_entry'', PStr ''[2024-01-01 10:00] Discussed trip''),
                                (''memory_update'', PStr [])]))
     ''m'' False 2 None None))) = memory_file scenario_store"
  unfolding run_empty_update
  by (simp add: dict_get_def coerce_str_def read_long_term_def scenario_store_def)

text \<open>
  Claim C6, as amended. In a call that reaches the handling of a valid argument mapping,
  a \<open>history_entry\<close> with a true value is appended to the history, a value that is not a
  string as its \<open>json.dumps\<close> encoding (stripped of trailing whitespace, with the blank
  line after it); a \<open>history_entry\<close> with a false value is not appended. As stated the
  claim fails: a \<open>history_entry\<close> of 0 is present, is not a string, and is dropped.
\<close>

theorem consolidate_history_entry:
  assumes "select_old_messages session archive_all memory_window = Some (old_messages, keep_count)"
    and "provider [(''system'', system_prompt),
                   (''user'', build_prompt (read_long_term ms) (format_lines old_messages))] model
         = ChatResponse response"
    and "has_tool_calls response"
    and "tool_calls response = tc # tcs"
    and "parse_arguments json_loads (arguments tc) = Some args"
    and "consolidate json_loads json_dumps tec ms session provider model archive_all memory_window
           user_id vector_store
         = (ok, ms', session', vector_store')"
  shows "history_appends (fs_log ms') =
           history_appends (fs_log ms) @
           (if truthy (dict_get args ''history_entry'')
            then [rstrip (coerce_str json_dumps (dict_get args ''history_entry'')) @ newline @ newline]
            else []) \<and>
         history_file ms' =
           (if truthy (dict_get args ''history_entry'')
            then Some ((case history_file ms of Some h \<Rightarrow> h | None \<Rightarrow> []) @
                       rstrip (coerce_str json_dumps (dict_get args ''history_entry'')) @
                       newline @ newline)
            else history_file ms) \<and>
         ((\<forall>s. dict_get args ''history_entry'' \<noteq> PStr s) \<longrightarrow>
            coerce_str json_dumps (dict_get args ''history_entry'') =
              json_dumps (dict_get args ''history_entry''))"
proof -
  have "(\<forall>s. v \<noteq> PStr s) \<longrightarrow> coerce_str json_dumps v = json_dumps v" for v
    by (cases v) (simp_all add: coerce_str_def)
  then show ?thesis
    using consolidate_store(1) [where provider=provider and model=model and ms=ms, OF assms]
          save_outputs_history [of json_dumps ms "read_long_term ms" args]
    by simp
qed

theorem consolidate_history_entry_witness:
  "dict_get [(''history_entry'', PList [PStr ''Discussed trip'']),
             (''memory_update'', PStr ''User likes tea'')] ''history_entry''
     = PList [PStr ''Discussed trip''] \<and>
   history_appends (fs_log (fst (snd (consolidate refuse_all dumps_stub embed_stub scenario_store
     \<lparr>messages = replicate 3 scenario_message, last_consolidated = 0\<rparr>
     (scenario_response (PDict [(''history_entry'', PList [PStr ''Discussed trip'']),
                                (''memory_update'', PStr ''User likes tea'')]))
     ''m'' False 2 None None))))
     = [dumps_stub (PList [PStr ''Discussed trip'']) @ newline @ newline] \<and>
   history_file (fst (snd (consolidate refuse_all dumps_stub embed_stub scenario_store
     \<lparr>messages = replicate 3 scenario_message, last_consolidated = 0\<rparr>
     (scenario_response (PDict [(''history_entry'', PList [PStr ''Discussed trip'']),
                                (''memory_update'', PStr ''User likes tea'')]))
     ''m'' False 2 None None)))
     = Some (dumps_stub (PList [PStr ''Discussed trip'']) @ newline @ newline)"
  using consolidate_history_entry
          [where provider="scenario_response (PDict [(''history_entry'', PList [PStr ''Discussed trip'']),
                                (''memory_update'', PStr ''User likes tea'')])" and model="''m''"
             and ms=scenario_store and json_loads=refuse_all
             and tcs="[]",
           OF sel3 scenario_handled(1) scenario_handled(2) scenario_handled(3)
              scenario_handled(4) run_list_entry]
  unfolding run_list_entry
  by (simp add: dict_get_def dumps_stub_def coerce_str_def rstrip_def py_isspace_def scenario_store_def)

theorem history_entry_counterexample:
  "dict_get [(''history_entry'', PInt 0), (''memory_update'', PStr ''User likes hiking'')]
      ''history_entry'' = PInt 0 \<and>
   fst (consolidate refuse_all dumps_stub embed_stub scenario_store
     \<lparr>messages = replicate 3 scenario_message, last_consolidated = 0\<rparr>
     (scenario_response (PDict [(''history_entry'', PInt 0),
                                (''memory_update'', PStr ''User likes hiking'')]))
     ''m'' False 2 None None) \<and>
   history_appends (fs_log (fst (snd (consolidate refuse_all dumps_stub embed_stub scenario_store
     \<lparr>messages = replicate 3 scenario_message, last_consolidated = 0\<rparr>
     (scenario_response (PDict [(''history_entry'', PInt 0),
                                (''memory_update'', PStr ''User likes hiking'')]))
     ''m'' False 2 None None)))) = [] \<and>
   history_file (fst (snd (consolidate refuse_all dumps_stub embed_stub scenario_store
     \<lparr>messages = replicate 3 scenario_message, last_consolidated = 0\<rparr>
     (scenario_response (PDict [(''history_entry'', PInt 0),
                                (''memory_update'', PStr ''User likes hiking'')]))
     ''m'' False 2 None None))) = None"
  unfolding run_zero_entry
  by (simp add: dict_get_def)

section \<open>Fact persistence\<close>

lemma save_facts_forwarded:
  "save_facts tec vs uid fs = foldl (\<lambda>v s. add_memory tec v uid s) vs (forwarded_facts fs)"
proof (induction fs arbitrary: vs)
  case Nil
  show ?case by simp
next
  case (Cons x xs)
  show ?case by (cases x) (simp_all add: Cons.IH)
qed

lemma add_memory_no_embedding:
  "get_embeddings tec vs c = None \<or> get_embeddings tec vs c = Some [] \<Longrightarrow> add_memory tec vs uid c = vs"
  by (auto simp add: add_memory_def split: option.splits)

lemma available_set_pool:
  "available_pool vs = Some p \<Longrightarrow> available_pool (set_pool vs p') = Some p'"
  by (auto simp add: available_pool_def set_pool_def split: option.splits if_splits)

lemma add_memory_rows:
  assumes "available_pool vs = Some p"
  shows "\<exists>p'. available_pool (add_memory tec vs uid c) = Some p' \<and>
           (vector_memories p' = vector_memories p \<or>
            (\<exists>e i. get_embeddings tec vs c = Some e \<and> e \<noteq> [] \<and>
               vector_memories p' = vector_memories p @
                 [\<lparr>vm_id = i, vm_user_id = uid, vm_content = c, vm_embedding = e\<rparr>]))"
proof (cases "get_embeddings tec vs c")
  case None
  with assms show ?thesis by (simp add: add_memory_def)
next
  case (Some e)
  show ?thesis
  proof (cases "e = []")
    case True
    with Some assms show ?thesis by (simp add: add_memory_def)
  next
    case False
    obtain e1 p1 where r1: "round_trip p = (e1, p1)" by (cases "round_trip p")
    obtain e2 p2 where r2: "round_trip p1 = (e2, p2)" by (cases "round_trip p1")
    from r1 have v1: "vector_memories p1 = vector_memories p"
      by (auto simp add: round_trip_def split: list.splits)
    from r2 have v2: "vector_memories p2 = vector_memories p1"
      by (auto simp add: round_trip_def split: list.splits)
    from Some False assms r1 r2 v1 v2 show ?thesis
      by (auto simp add: add_memory_def available_set_pool)
  qed
qed

lemma persist_facts_skipped:
  "user_id = None \<or> user_id = Some 0 \<or> vector_store = None \<Longrightarrow>
   persist_facts tec user_id vector_store v = Some vector_store"
  by (auto simp add: persist_facts_def split: option.splits)

lemma persist_facts_list:
  "uid \<noteq> 0 \<Longrightarrow>
   persist_facts tec (Some uid) (Some vs) (PList fs) =
     Some (Some (foldl (\<lambda>v s. add_memory tec v uid s) vs (forwarded_facts fs)))"
  by (cases fs) (simp_all add: persist_facts_def save_facts_forwarded)

lemma run_no_user:
  "consolidate refuse_all dumps_stub embed_stub scenario_store
     \<lparr>messages = replicate 3 scenario_message, last_consolidated = 0\<rparr>
     (scenario_response scenario_payload) ''m'' False 2 None (Some scenario_vector_store)
   = (True,
      \<lparr>memory_file = Some ''User likes hiking'',
       history_file = Some (''[2024-01-01 10:00] Discussed trip'' @ newline @ newline),
       fs_log = [AppendHistory (''[2024-01-01 10:00] Discussed trip'' @ newline @ newline), WriteMemory ''User likes hiking'']\<rparr>,
      \<lparr>messages = replicate 3 scenario_message, last_consolidated = 2\<rparr>,
      Some scenario_vector_store)"
  unfolding consolidate_def sel3
  by (simp add: scenario_response_def scenario_payload_def scenario_args_def parse_arguments_def
      save_outputs_def dict_get_def append_history_def write_long_term_def read_long_term_def
      scenario_store_def coerce_str_def persist_facts_def rstrip_def py_isspace_def newline_def Let_def)

text \<open>
  Claim C7. In a call that reaches the handling of a valid argument mapping: with a
  \<open>user_id\<close> (other than 0, which the truth test of the source reads as none) and a
  vector store, the facts of a list that are strings and not empty once trimmed are handed
  one by one, in order, to \<open>add_memory\<close> with that \<open>user_id\<close>, and the call returns
  true; without a \<open>user_id\<close> or without a vector store the vector store is left as it
  was and the call still returns true; the vector store changes only when both are there.
  A fact whose embedding fails leaves the store as it was, and \<open>add_memory\<close> adds at most
  one row, of that user, with the content and an embedding that is not empty.
\<close>

theorem consolidate_facts:
  assumes "select_old_messages session archive_all memory_window = Some (old_messages, keep_count)"
    and "provider [(''system'', system_prompt),
                   (''user'', build_prompt (read_long_term ms) (format_lines old_messages))] model
         = ChatResponse response"
    and "has_tool_calls response"
    and "tool_calls response = tc # tcs"
    and "parse_arguments json_loads (arguments tc) = Some args"
    and "consolidate json_loads json_dumps tec ms session provider model archive_all memory_window
           user_id vector_store
         = (ok, ms', session', vector_store')"
  shows "(\<forall>uid vs fs. user_id = Some uid \<and> uid \<noteq> 0 \<and> vector_store = Some vs \<and>
            dict_get args ''facts'' = PList fs \<longrightarrow>
            ok \<and> vector_store' =
              Some (foldl (\<lambda>v s. add_memory tec v uid s) vs (forwarded_facts fs))) \<and>
         (user_id = None \<or> vector_store = None \<longrightarrow> ok \<and> vector_store' = vector_store) \<and>
         (vector_store' \<noteq> vector_store \<longrightarrow> user_id \<noteq> None \<and> vector_store \<noteq> None) \<and>
         (\<forall>vs uid c. get_embeddings tec vs c = None \<longrightarrow> add_memory tec vs uid c = vs) \<and>
         (\<forall>vs uid c p. available_pool vs = Some p \<longrightarrow>
            (\<exists>p'. available_pool (add_memory tec vs uid c) = Some p' \<and>
               (vector_memories p' = vector_memories p \<or>
                (\<exists>e i. get_embeddings tec vs c = Some e \<and> e \<noteq> [] \<and>
                   vector_memories p' = vector_memories p @
                     [\<lparr>vm_id = i, vm_user_id = uid, vm_content = c, vm_embedding = e\<rparr>]))))"
proof -
  note pf = consolidate_store(2) [where provider=provider and model=model and ms=ms, OF assms]
  have 1: "ok \<and> vector_store' = Some (foldl (\<lambda>v s. add_memory tec v uid s) vs (forwarded_facts fs))"
    if "user_id = Some uid" "uid \<noteq> 0" "vector_store = Some vs" "dict_get args ''facts'' = PList fs"
    for uid vs fs
    using pf that persist_facts_list [of uid tec vs fs] by (cases ok) simp_all
  have 2: "ok \<and> vector_store' = vector_store" if "user_id = None \<or> vector_store = None"
    using pf that persist_facts_skipped [of user_id vector_store tec "dict_get args ''facts''"]
    by (cases ok) auto
  have 3: "user_id \<noteq> None \<and> vector_store \<noteq> None" if ne: "vector_store' \<noteq> vector_store"
  proof (rule ccontr)
    assume "\<not> (user_id \<noteq> None \<and> vector_store \<noteq> None)"
    then have "user_id = None \<or> vector_store = None" by simp
    from 2 [OF this] ne show False by simp
  qed
  have 4: "add_memory tec vs uid c = vs" if "get_embeddings tec vs c = None" for vs uid c
    using that by (simp add: add_memory_no_embedding)
  from 1 2 3 4 add_memory_rows [of _ _ tec] show ?thesis
    by (intro conjI allI impI) blast+
qed

theorem consolidate_facts_witness:
  "dict_get scenario_args ''facts'' = PList [PStr ''User has a dog named Rex''] \<and>
   forwarded_facts [PStr ''User has a dog named Rex''] = [''User has a dog named Rex''] \<and>
   snd (snd (snd (consolidate refuse_all dumps_stub embed_stub scenario_store
       \<lparr>messages = replicate 60 scenario_message, last_consolidated = 0\<rparr>
       (scenario_response scenario_payload) ''m'' False 50 (Some 7) (Some scenario_vector_store))))
     = Some (add_memory embed_stub scenario_vector_store 7 ''User has a dog named Rex'') \<and>
   fst (consolidate refuse_all dumps_stub embed_stub scenario_store
       \<lparr>messages = replicate 3 scenario_message, last_consolidated = 0\<rparr>
       (scenario_response scenario_payload) ''m'' False 2 None (Some scenario_vector_store)) \<and>
   snd (snd (snd (consolidate refuse_all dumps_stub embed_stub scenario_store
       \<lparr>messages = replicate 3 scenario_message, last_consolidated = 0\<rparr>
       (scenario_response scenario_payload) ''m'' False 2 None (Some scenario_vector_store))))
     = Some scenario_vector_store \<and>
   get_embeddings embed_stub scenario_vector_store ''unembeddable'' = None \<and>
   add_memory embed_stub scenario_vector_store 7 ''unembeddable'' = scenario_vector_store"
proof -
  have fs: "dict_get scenario_args ''facts'' = PList [PStr ''User has a dog named Rex'']"
    by (simp add: dict_get_def scenario_args_def)
  have fw: "forwarded_facts [PStr ''User has a dog named Rex''] = [''User has a dog named Rex'']"
    by (simp add: strip_def rstrip_def py_isspace_def)
  have ne: "get_embeddings embed_stub scenario_vector_store ''unembeddable'' = None"
    by (simp add: get_embeddings_def embed_stub_def scenario_vector_store_def)
  note a = consolidate_facts
          [where provider="scenario_response scenario_payload" and model="''m''"
             and ms=scenario_store and json_loads=refuse_all and args=scenario_args
             and tc="\<lparr>arguments = scenario_payload\<rparr>" and tcs="[]",
           OF sel60 scenario_handled(1) scenario_handled(2) scenario_handled(3)
              scenario_handled(4) [of refuse_all scenario_args, folded scenario_payload_def] run60]
  note b = consolidate_facts
          [where provider="scenario_response scenario_payload" and model="''m''"
             and ms=scenario_store and json_loads=refuse_all and args=scenario_args
             and tc="\<lparr>arguments = scenario_payload\<rparr>" and tcs="[]",
           OF sel3 scenario_handled(1) scenario_handled(2) scenario_handled(3)
              scenario_handled(4) [of refuse_all scenario_args, folded scenario_payload_def] run_no_user]
  from a fs fw have 1: "snd (snd (snd (consolidate refuse_all dumps_stub embed_stub scenario_store
       \<lparr>messages = replicate 60 scenario_message, last_consolidated = 0\<rparr>
       (scenario_response scenario_payload) ''m'' False 50 (Some 7) (Some scenario_vector_store))))
     = Some (add_memory embed_stub scenario_vector_store 7 ''User has a dog named Rex'')"
    unfolding run60 by simp
  from b have 2: "fst (consolidate refuse_all dumps_stub embed_stub scenario_store
       \<lparr>messages = replicate 3 scenario_message, last_consolidated = 0\<rparr>
       (scenario_response scenario_payload) ''m'' False 2 None (Some scenario_vector_store)) \<and>
   snd (snd (snd (consolidate refuse_all dumps_stub embed_stub scenario_store
       \<lparr>messages = replicate 3 scenario_message, last_consolidated = 0\<rparr>
       (scenario_response scenario_payload) ''m'' False 2 None (Some scenario_vector_store))))
     = Some scenario_vector_store"
    unfolding run_no_user by simp
  from a ne have 3: "add_memory embed_stub scenario_vector_store 7 ''unembeddable'' = scenario_vector_store"
    by blast
  from fs fw 1 2 ne 3 show ?thesis by blast
qed

section \<open>Similarity search\<close>

lemma sorted_take_top:
  assumes "sorted (map f xs)" "x \<in> set (take n xs)" "y \<in> set (drop n xs)"
  shows "f x \<le> f y"
proof -
  have "sorted (map f (take n xs) @ map f (drop n xs))"
    using assms(1) by (simp flip: map_append)
  with assms(2,3) show ?thesis
    by (auto simp add: sorted_append)
qed

lemma similarity_query_length:
  "length (similarity_query distance p user_id embedding limit) \<le> nat limit"
  by (simp add: similarity_query_def)

lemma similarity_query_scoped:
  "r \<in> set (similarity_query distance p user_id embedding limit) \<Longrightarrow>
   r \<in> set (vector_memories p) \<and> vm_user_id r = user_id"
  by (auto simp add: similarity_query_def dest!: in_set_takeD)

lemma similarity_query_sorted:
  "sorted (map (\<lambda>r. distance (vm_embedding r) embedding)
            (similarity_query distance p user_id embedding limit))"
proof -
  have "sorted (take (nat limit)
          (map (\<lambda>r. distance (vm_embedding r) embedding)
             (sort_key (\<lambda>r. distance (vm_embedding r) embedding)
                (filter (\<lambda>r. vm_user_id r = user_id) (vector_memories p)))))"
    by (rule sorted_wrt_take) (rule sorted_sort_key)
  then show ?thesis
    by (simp add: similarity_query_def take_map)
qed

lemma similarity_query_closest:
  assumes "r \<in> set (vector_memories p)" "vm_user_id r = user_id"
    and "r \<notin> set (similarity_query distance p user_id embedding limit)"
    and "r' \<in> set (similarity_query distance p user_id embedding limit)"
  shows "distance (vm_embedding r') embedding \<le> distance (vm_embedding r) embedding"
proof -
  let ?xs = "sort_key (\<lambda>r. distance (vm_embedding r) embedding)
               (filter (\<lambda>r. vm_user_id r = user_id) (vector_memories p))"
  from assms(1,2) have "r \<in> set ?xs" by simp
  then have "r \<in> set (take (nat limit) ?xs) \<or> r \<in> set (drop (nat limit) ?xs)"
    by (metis Un_iff append_take_drop_id set_append)
  with assms(3) have d: "r \<in> set (drop (nat limit) ?xs)"
    by (simp add: similarity_query_def)
  from assms(4) have t: "r' \<in> set (take (nat limit) ?xs)"
    by (simp add: similarity_query_def)
  have "sorted (map (\<lambda>r. distance (vm_embedding r) embedding) ?xs)"
    by (rule sorted_sort_key)
  from sorted_take_top [OF this t d] show ?thesis .
qed

lemma round_trip_vector_memories:
  "vector_memories (snd (round_trip p)) = vector_memories p"
  by (simp add: round_trip_def split: list.splits)

lemma similarity_query_cong:
  "vector_memories p' = vector_memories p \<Longrightarrow>
   similarity_query distance p' user_id embedding limit =
   similarity_query distance p user_id embedding limit"
  by (simp add: similarity_query_def)

lemma search_memories_cases:
  "fst (search_memories distance tec vs user_id query limit) = [] \<or>
   (\<exists>p e. available_pool vs = Some p \<and> get_embeddings tec vs query = Some e \<and> e \<noteq> [] \<and>
      \<not> fst (round_trip p) \<and> \<not> fst (round_trip (snd (round_trip p))) \<and>
      fst (search_memories distance tec vs user_id query limit) =
        map vm_content (similarity_query distance p user_id e limit))"
proof (cases "available_pool vs")
  case None
  then show ?thesis by (simp add: search_memories_def)
next
  case (Some p)
  show ?thesis
  proof (cases "get_embeddings tec vs query")
    case None
    with Some show ?thesis by (simp add: search_memories_def)
  next
    case (Some e)
    obtain e1 p1 where r1: "round_trip p = (e1, p1)" by (cases "round_trip p")
    obtain e2 p2 where r2: "round_trip p1 = (e2, p2)" by (cases "round_trip p1")
    have "vector_memories p2 = vector_memories p"
      using round_trip_vector_memories [of p] round_trip_vector_memories [of p1] r1 r2 by simp
    then have "similarity_query distance p2 user_id e limit = similarity_query distance p user_id e limit"
      by (rule similarity_query_cong)
    with \<open>available_pool vs = Some p\<close> Some r1 r2 show ?thesis
      by (simp add: search_memories_def)
  qed
qed

lemma search_memories_empty:
  assumes "available_pool vs = None \<or> get_embeddings tec vs query = None \<or>
           get_embeddings tec vs query = Some [] \<or>
           (\<exists>p. available_pool vs = Some p \<and>
              (fst (round_trip p) \<or> fst (round_trip (snd (round_trip p)))))"
  shows "fst (search_memories distance tec vs user_id query limit) = []"
  using assms search_memories_cases [of distance tec vs user_id query limit]
  by auto

lemma run_search:
  "fst (search_memories l1_distance embed_stub scenario_search_store 7 ''dog'' 2)
     = [''User has a dog named Rex'', ''User walks the dog daily'']"
  by (simp add: search_memories_def available_pool_def scenario_search_store_def get_embeddings_def
      embed_stub_def round_trip_def similarity_query_def l1_distance_def eval_nat_numeral)

text \<open>
  Claim C8. \<open>search_memories\<close> returns the empty list when the store is disabled or has
  no pool, when the query has no embedding, and when a round trip to the engine raises;
  it never returns more than \<open>limit\<close> strings (none for a negative \<open>limit\<close>); a result
  that is not empty is the contents of rows of that user, in non-decreasing distance to
  the embedding of the query, and no row of the user left out is closer than a row
  returned. The function is total: no path of it raises.
\<close>

theorem search_memories_ranked:
  "(available_pool vs = None \<or> get_embeddings tec vs query = None \<or>
    get_embeddings tec vs query = Some [] \<or>
    (\<exists>p. available_pool vs = Some p \<and>
       (fst (round_trip p) \<or> fst (round_trip (snd (round_trip p))))) \<longrightarrow>
    fst (search_memories distance tec vs user_id query limit) = []) \<and>
   length (fst (search_memories distance tec vs user_id query limit)) \<le> nat limit \<and>
   (fst (search_memories distance tec vs user_id query limit) \<noteq> [] \<longrightarrow>
    (\<exists>p e rows. available_pool vs = Some p \<and> get_embeddings tec vs query = Some e \<and>
       fst (search_memories distance tec vs user_id query limit) = map vm_content rows \<and>
       (\<forall>r. r \<in> set rows \<longrightarrow> r \<in> set (vector_memories p) \<and> vm_user_id r = user_id) \<and>
       sorted (map (\<lambda>r. distance (vm_embedding r) e) rows) \<and>
       (\<forall>r r'. r \<in> set (vector_memories p) \<and> vm_user_id r = user_id \<and> r \<notin> set rows \<and>
          r' \<in> set rows \<longrightarrow>
          distance (vm_embedding r') e \<le> distance (vm_embedding r) e)))"
proof (intro conjI impI)
  assume "available_pool vs = None \<or> get_embeddings tec vs query = None \<or>
    get_embeddings tec vs query = Some [] \<or>
    (\<exists>p. available_pool vs = Some p \<and>
       (fst (round_trip p) \<or> fst (round_trip (snd (round_trip p)))))"
  then show "fst (search_memories distance tec vs user_id query limit) = []"
    by (rule search_memories_empty)
next
  show "length (fst (search_memories distance tec vs user_id query limit)) \<le> nat limit"
    using search_memories_cases [of distance tec vs user_id query limit]
          similarity_query_length [of distance _ user_id _ limit]
    by auto
next
  assume "fst (search_memories distance tec vs user_id query limit) \<noteq> []"
  with search_memories_cases [of distance tec vs user_id query limit]
  obtain p e where pe: "available_pool vs = Some p" "get_embeddings tec vs query = Some e"
    "fst (search_memories distance tec vs user_id query limit) =
        map vm_content (similarity_query distance p user_id e limit)"
    by blast
  show "\<exists>p e rows. available_pool vs = Some p \<and> get_embeddings tec vs query = Some e \<and>
       fst (search_memories distance tec vs user_id query limit) = map vm_content rows \<and>
       (\<forall>r. r \<in> set rows \<longrightarrow> r \<in> set (vector_memories p) \<and> vm_user_id r = user_id) \<and>
       sorted (map (\<lambda>r. distance (vm_embedding r) e) rows) \<and>
       (\<forall>r r'. r \<in> set (vector_memories p) \<and> vm_user_id r = user_id \<and> r \<notin> set rows \<and>
          r' \<in> set rows \<longrightarrow>
          distance (vm_embedding r') e \<le> distance (vm_embedding r) e)"
    using pe similarity_query_scoped [of _ distance p user_id e limit]
          similarity_query_sorted [of distance e p user_id limit]
          similarity_query_closest [of _ p user_id distance e limit]
    by (intro exI [of _ p] exI [of _ e] exI [of _ "similarity_query distance p user_id e limit"]) blast
qed

theorem search_memories_ranked_witness:
  "available_pool (scenario_search_store\<lparr>vs_db := None\<rparr>) = None \<and>
   fst (search_memories l1_distance embed_stub (scenario_search_store\<lparr>vs_db := None\<rparr>) 7 ''dog'' 2) = [] \<and>
   fst (search_memories l1_distance embed_stub scenario_search_store 7 ''dog'' 2)
     = [''User has a dog named Rex'', ''User walks the dog daily''] \<and>
   length (fst (search_memories l1_distance embed_stub scenario_search_store 7 ''dog'' 2)) \<le> nat 2"
proof -
  have off: "available_pool (scenario_search_store\<lparr>vs_db := None\<rparr>) = None"
    by (simp add: available_pool_def)
  from search_memories_ranked [of "scenario_search_store\<lparr>vs_db := None\<rparr>" embed_stub "''dog''" l1_distance 7 2] off
  have empty: "fst (search_memories l1_distance embed_stub (scenario_search_store\<lparr>vs_db := None\<rparr>) 7 ''dog'' 2) = []"
    by blast
  from search_memories_ranked [of scenario_search_store embed_stub "''dog''" l1_distance 7 2]
  have len: "length (fst (search_memories l1_distance embed_stub scenario_search_store 7 ''dog'' 2)) \<le> nat 2"
    by blast
  from off empty run_search len show ?thesis
    by blast
qed

section \<open>Identity resolution\<close>

lemma round_trip_alt: "round_trip p = (raises p, after_trip p)"
  by (cases "faults p") (simp_all add: round_trip_def raises_def after_trip_def)

lemma after_trip_tables [simp]:
  "users (after_trip p) = users p"
  "users_id_seq (after_trip p) = users_id_seq p"
  "user_identities (after_trip p) = user_identities p"
  "vector_memories (after_trip p) = vector_memories p"
  "vector_memories_id_seq (after_trip p) = vector_memories_id_seq p"
  "faults (after_trip p) = tl (faults p)"
  by (simp_all add: after_trip_def)

lemma raises_update [simp]:
  "raises (p\<lparr>users := us\<rparr>) = raises p"
  "raises (p\<lparr>users_id_seq := n\<rparr>) = raises p"
  "raises (p\<lparr>user_identities := is\<rparr>) = raises p"
  by (simp_all add: raises_def)

lemma get_user_id_unavailable:
  "pool db = None \<or> \<not> enabled db \<Longrightarrow> get_user_id db channel sender_id = (None, db)"
  by (auto simp add: get_user_id_def split: option.splits)

lemma get_user_id_found:
  assumes "pool db = Some p" "enabled db"
    and "\<not> raises p" "\<not> raises (after_trip p)"
    and "find (\<lambda>r. ui_channel r = channel \<and> ui_sender_id r = sender_id) (user_identities p) = Some row"
  shows "get_user_id db channel sender_id =
           (Some (ui_user_id row), db\<lparr>pool := Some (after_trip (after_trip p))\<rparr>)"
  using assms by (simp add: get_user_id_def round_trip_alt)

lemma get_user_id_lookup_fails:
  assumes "pool db = Some p" "enabled db"
    and "raises p \<or> raises (after_trip p)"
  shows "fst (get_user_id db channel sender_id) = None"
    and "\<exists>p'. pool (snd (get_user_id db channel sender_id)) = Some p' \<and>
           users p' = users p \<and> user_identities p' = user_identities p"
  using assms by (auto simp add: get_user_id_def round_trip_alt)

lemma raises_within_Suc:
  "raises_within (Suc k) p = (raises p \<or> raises_within k (after_trip p))"
  by (cases "faults p") (auto simp add: raises_within_def raises_def after_trip_def)

lemma raises_within_0 [simp]: "\<not> raises_within 0 p"
  by (simp add: raises_within_def)

lemma raises_within_update [simp]:
  "raises_within k (p\<lparr>users := us\<rparr>) = raises_within k p"
  "raises_within k (p\<lparr>users_id_seq := n\<rparr>) = raises_within k p"
  "raises_within k (p\<lparr>user_identities := is\<rparr>) = raises_within k p"
  by (simp_all add: raises_within_def)

lemma after_trip_update [simp]:
  "after_trip (p\<lparr>users := us\<rparr>) = (after_trip p)\<lparr>users := us\<rparr>"
  "after_trip (p\<lparr>users_id_seq := n\<rparr>) = (after_trip p)\<lparr>users_id_seq := n\<rparr>"
  "after_trip (p\<lparr>user_identities := is\<rparr>) = (after_trip p)\<lparr>user_identities := is\<rparr>"
  by (simp_all add: after_trip_def)

lemma get_user_id_absent:
  assumes "pool db = Some p" "enabled db"
    and "\<not> raises_within 2 p"
    and "find (\<lambda>r. ui_channel r = channel \<and> ui_sender_id r = sender_id) (user_identities p) = None"
  shows "(raises_within 6 p \<longrightarrow>
            fst (get_user_id db channel sender_id) = None \<and>
            (\<exists>p'. pool (snd (get_user_id db channel sender_id)) = Some p' \<and>
               users p' = users p \<and> user_identities p' = user_identities p)) \<and>
         (\<not> raises_within 6 p \<longrightarrow>
            fst (get_user_id db channel sender_id) = Some (users_id_seq p) \<and>
            (\<exists>p'. pool (snd (get_user_id db channel sender_id)) = Some p' \<and>
               users p' = users p @ [users_id_seq p] \<and>
               user_identities p' = user_identities p @
                 [\<lparr>ui_user_id = users_id_seq p, ui_channel = channel, ui_sender_id = sender_id\<rparr>]))"
  using assms
  by (simp add: get_user_id_def round_trip_alt eval_nat_numeral raises_within_Suc Let_def)


lemma get_user_id_present:
  assumes "pool db = Some p" "enabled db"
    and "find (\<lambda>r. ui_channel r = channel \<and> ui_sender_id r = sender_id) (user_identities p) = Some row"
  shows "fst (get_user_id db channel sender_id) =
           (if raises_within 2 p then None else Some (ui_user_id row)) \<and>
         enabled (snd (get_user_id db channel sender_id)) \<and>
         (\<exists>p'. pool (snd (get_user_id db channel sender_id)) = Some p' \<and>
            users p' = users p \<and> user_identities p' = user_identities p)"
  using assms
  by (simp add: get_user_id_def round_trip_alt eval_nat_numeral raises_within_Suc Let_def)

lemma get_user_id_lookup_raises:
  assumes "pool db = Some p" "enabled db" "raises_within 2 p"
  shows "fst (get_user_id db channel sender_id) = None \<and>
         enabled (snd (get_user_id db channel sender_id)) \<and>
         (\<exists>p'. pool (snd (get_user_id db channel sender_id)) = Some p' \<and>
            users p' = users p \<and> user_identities p' = user_identities p)"
  using assms
  by (auto simp add: get_user_id_def round_trip_alt eval_nat_numeral raises_within_Suc Let_def)

lemma get_user_id_enabled:
  "enabled (snd (get_user_id db channel sender_id)) = enabled db"
  by (simp add: get_user_id_def round_trip_alt Let_def split: option.splits)

lemma find_snoc:
  "find P xs = None \<Longrightarrow> P x \<Longrightarrow> find P (xs @ [x]) = Some x"
  by (induction xs) (auto split: if_splits)

lemma get_user_id_again:
  assumes "get_user_id db channel sender_id = (Some u, db')"
  shows "\<exists>p' row. pool db' = Some p' \<and> enabled db' \<and>
           find (\<lambda>r. ui_channel r = channel \<and> ui_sender_id r = sender_id) (user_identities p') = Some row \<and>
           ui_user_id row = u"
proof -
  from assms obtain p where p: "pool db = Some p" and en: "enabled db"
    using get_user_id_unavailable [of db channel sender_id] by (cases "pool db") auto
  have en': "enabled db'"
    using get_user_id_enabled [of db channel sender_id] assms en by simp
  show ?thesis
  proof (cases "find (\<lambda>r. ui_channel r = channel \<and> ui_sender_id r = sender_id) (user_identities p)")
    case (Some row)
    from get_user_id_present [OF p en Some] assms en' Some show ?thesis
      by (auto split: if_splits)
  next
    case None
    have l2: "\<not> raises_within 2 p"
      using get_user_id_lookup_raises [OF p en, of channel sender_id] assms by auto
    from get_user_id_absent [OF p en l2 None] assms
    obtain p' where "pool db' = Some p'" "u = users_id_seq p"
      "user_identities p' = user_identities p @
         [\<lparr>ui_user_id = users_id_seq p, ui_channel = channel, ui_sender_id = sender_id\<rparr>]"
      by (cases "raises_within 6 p") auto
    with None en' show ?thesis
      by (simp add: find_snoc)
  qed
qed

lemma raises_within_mono: "raises_within 2 p \<Longrightarrow> raises_within 6 p"
  using set_take_subset_set_take [of 2 6 "faults p"] by (auto simp add: raises_within_def)

lemma run_resolve:
  "get_user_id \<lparr>enabled = True, pool = Some scenario_pool\<rparr> ''telegram'' ''alice'' =
     (Some 8, \<lparr>enabled = True, pool = Some (scenario_pool
        \<lparr>users := [7, 8], users_id_seq := 9,
         user_identities := [\<lparr>ui_user_id = 8, ui_channel = ''telegram'', ui_sender_id = ''alice''\<rparr>]\<rparr>)\<rparr>)"
  by (simp add: get_user_id_def round_trip_def scenario_pool_def Let_def)

lemma run_resolve_again:
  "get_user_id \<lparr>enabled = True, pool = Some (scenario_pool
        \<lparr>users := [7, 8], users_id_seq := 9,
         user_identities := [\<lparr>ui_user_id = 8, ui_channel = ''telegram'', ui_sender_id = ''alice''\<rparr>]\<rparr>)\<rparr>
      ''telegram'' ''alice'' =
     (Some 8, \<lparr>enabled = True, pool = Some (scenario_pool
        \<lparr>users := [7, 8], users_id_seq := 9,
         user_identities := [\<lparr>ui_user_id = 8, ui_channel = ''telegram'', ui_sender_id = ''alice''\<rparr>]\<rparr>)\<rparr>)"
  by (simp add: get_user_id_def round_trip_def scenario_pool_def Let_def)

text \<open>
  Claim C9. \<open>get_user_id\<close> returns none and changes nothing when there is no pool or the
  manager is disabled. When a row for the pair exists it returns the \<open>user_id\<close> of that
  row and leaves the tables alone (none when one of the two round trips of the lookup
  raises). When no row exists and none of the six round trips raises it returns the new
  id, with one user row and one identity row added; when one raises it returns none and
  both tables are what they were. After a call that returned an id, a further call for
  the same pair returns the same id (or none on a storage error) and adds no row.
\<close>

theorem get_user_id_resolves:
  "(pool db = None \<or> \<not> enabled db \<longrightarrow> get_user_id db channel sender_id = (None, db)) \<and>
   (\<forall>p row. pool db = Some p \<and> enabled db \<and>
        find (\<lambda>r. ui_channel r = channel \<and> ui_sender_id r = sender_id) (user_identities p) = Some row \<longrightarrow>
        fst (get_user_id db channel sender_id) =
          (if raises_within 2 p then None else Some (ui_user_id row)) \<and>
        (\<exists>p'. pool (snd (get_user_id db channel sender_id)) = Some p' \<and>
           users p' = users p \<and> user_identities p' = user_identities p)) \<and>
   (\<forall>p. pool db = Some p \<and> enabled db \<and>
        find (\<lambda>r. ui_channel r = channel \<and> ui_sender_id r = sender_id) (user_identities p) = None \<longrightarrow>
        (if raises_within 6 p
         then fst (get_user_id db channel sender_id) = None \<and>
              (\<exists>p'. pool (snd (get_user_id db channel sender_id)) = Some p' \<and>
                 users p' = users p \<and> user_identities p' = user_identities p)
         else fst (get_user_id db channel sender_id) = Some (users_id_seq p) \<and>
              (\<exists>p'. pool (snd (get_user_id db channel sender_id)) = Some p' \<and>
                 users p' = users p @ [users_id_seq p] \<and>
                 user_identities p' = user_identities p @
                   [\<lparr>ui_user_id = users_id_seq p, ui_channel = channel,
                     ui_sender_id = sender_id\<rparr>]))) \<and>
   (\<forall>u db'. get_user_id db channel sender_id = (Some u, db') \<longrightarrow>
        (\<exists>p' p''. pool db' = Some p' \<and>
           pool (snd (get_user_id db' channel sender_id)) = Some p'' \<and>
           users p'' = users p' \<and> user_identities p'' = user_identities p' \<and>
           fst (get_user_id db' channel sender_id) =
             (if raises_within 2 p' then None else Some u)))"
proof (intro conjI allI impI)
  assume "pool db = None \<or> \<not> enabled db"
  then show "get_user_id db channel sender_id = (None, db)"
    by (rule get_user_id_unavailable)
next
  fix p row
  assume a: "pool db = Some p \<and> enabled db \<and>
        find (\<lambda>r. ui_channel r = channel \<and> ui_sender_id r = sender_id) (user_identities p) = Some row"
  from get_user_id_present [of db p channel sender_id row] a
  show "fst (get_user_id db channel sender_id) =
          (if raises_within 2 p then None else Some (ui_user_id row))"
    and "\<exists>p'. pool (snd (get_user_id db channel sender_id)) = Some p' \<and>
           users p' = users p \<and> user_identities p' = user_identities p"
    by blast+
next
  fix p
  assume a: "pool db = Some p \<and> enabled db \<and>
        find (\<lambda>r. ui_channel r = channel \<and> ui_sender_id r = sender_id) (user_identities p) = None"
  show "if raises_within 6 p
         then fst (get_user_id db channel sender_id) = None \<and>
              (\<exists>p'. pool (snd (get_user_id db channel sender_id)) = Some p' \<and>
                 users p' = users p \<and> user_identities p' = user_identities p)
         else fst (get_user_id db channel sender_id) = Some (users_id_seq p) \<and>
              (\<exists>p'. pool (snd (get_user_id db channel sender_id)) = Some p' \<and>
                 users p' = users p @ [users_id_seq p] \<and>
                 user_identities p' = user_identities p @
                   [\<lparr>ui_user_id = users_id_seq p, ui_channel = channel,
                     ui_sender_id = sender_id\<rparr>])"
  proof (cases "raises_within 2 p")
    case True
    from get_user_id_lookup_raises [of db p channel sender_id] a True raises_within_mono [OF True]
    show ?thesis by auto
  next
    case False
    from get_user_id_absent [of db p channel sender_id] a False
    show ?thesis by auto
  qed
next
  fix u db'
  assume a: "get_user_id db channel sender_id = (Some u, db')"
  from get_user_id_again [OF a] obtain p' row where
    p': "pool db' = Some p'" "enabled db'"
      "find (\<lambda>r. ui_channel r = channel \<and> ui_sender_id r = sender_id) (user_identities p') = Some row"
      "ui_user_id row = u"
    by blast
  from get_user_id_present [OF p'(1,2,3)] p'(1,4)
  show "\<exists>p' p''. pool db' = Some p' \<and>
           pool (snd (get_user_id db' channel sender_id)) = Some p'' \<and>
           users p'' = users p' \<and> user_identities p'' = user_identities p' \<and>
           fst (get_user_id db' channel sender_id) =
             (if raises_within 2 p' then None else Some u)"
    by auto
qed

theorem get_user_id_resolves_witness:
  "get_user_id \<lparr>enabled = False, pool = Some scenario_pool\<rparr> ''telegram'' ''alice'' =
     (None, \<lparr>enabled = False, pool = Some scenario_pool\<rparr>) \<and>
   find (\<lambda>r. ui_channel r = ''telegram'' \<and> ui_sender_id r = ''alice'') (user_identities scenario_pool) = None \<and>
   \<not> raises_within 6 scenario_pool \<and>
   fst (get_user_id \<lparr>enabled = True, pool = Some scenario_pool\<rparr> ''telegram'' ''alice'') = Some 8 \<and>
   fst (get_user_id (snd (get_user_id \<lparr>enabled = True, pool = Some scenario_pool\<rparr> ''telegram'' ''alice''))
          ''telegram'' ''alice'') = Some 8"
proof -
  have off: "get_user_id \<lparr>enabled = False, pool = Some scenario_pool\<rparr> ''telegram'' ''alice'' =
     (None, \<lparr>enabled = False, pool = Some scenario_pool\<rparr>)"
    using get_user_id_resolves [of "\<lparr>enabled = False, pool = Some scenario_pool\<rparr>" "''telegram''" "''alice''"]
    by simp
  have absent: "find (\<lambda>r. ui_channel r = ''telegram'' \<and> ui_sender_id r = ''alice'')
                  (user_identities scenario_pool) = None"
    by (simp add: scenario_pool_def)
  have quiet: "\<not> raises_within 6 scenario_pool"
    by (simp add: raises_within_def scenario_pool_def)
  have "fst (get_user_id \<lparr>enabled = True, pool = Some scenario_pool\<rparr> ''telegram'' ''alice'')
          = Some (users_id_seq scenario_pool)"
    using get_user_id_resolves [of "\<lparr>enabled = True, pool = Some scenario_pool\<rparr>" "''telegram''" "''alice''"]
          absent quiet
    by simp
  then have first: "fst (get_user_id \<lparr>enabled = True, pool = Some scenario_pool\<rparr> ''telegram'' ''alice'') = Some 8"
    by (simp add: scenario_pool_def)
  have again: "fst (get_user_id (snd (get_user_id \<lparr>enabled = True, pool = Some scenario_pool\<rparr> ''telegram'' ''alice''))
          ''telegram'' ''alice'') = Some 8"
    unfolding run_resolve by (simp add: run_resolve_again)
  from off absent quiet first again show ?thesis
    by blast
qed

end
